theory Spec2Isabelle
  imports Main "HOL-Library.AList"
begin

section \<open>Python values\<close>

text \<open>
  The tool functions of \<^verbatim>\<open>app/jarvis/tools\<close> receive decoded JSON from the Gmail and
  GitHub clients and return plain dictionaries.  Both are values of \<open>json\<close>.  A dictionary
  is an association list in insertion order whose keys are distinct; a Python \<^verbatim>\<open>str\<close> is
  the list of the bytes of its UTF-8 encoding, a lone surrogate being held as the three bytes
  that the encoding scheme gives its code point (\<open>0xED\<close>, then \<open>0xA0\<close> to \<open>0xBF\<close>, then a
  continuation byte), which strict UTF-8 refuses.  JSON numbers with a fraction are left out.
\<close>

datatype json =
    JNull
  | JBool bool
  | JInt int
  | JStr string
  | JList "json list"
  | JObj "(string \<times> json) list"

text \<open>An exception derived from \<^verbatim>\<open>Exception\<close>: its class name and \<^verbatim>\<open>str(e)\<close>.\<close>

datatype pyexn = PyExn string string

fun exn_str :: "pyexn \<Rightarrow> string" where
  "exn_str (PyExn c m) = m"

text \<open>
  What a statement raises: an exception derived from \<^verbatim>\<open>Exception\<close>, or one that is not
  (\<^verbatim>\<open>KeyboardInterrupt\<close>, \<^verbatim>\<open>SystemExit\<close>), given by its class name.  The second kind
  arises where an invocation waits, that is from a remote.
\<close>

datatype raised = Exc pyexn | Base string

definition lift_exn :: "pyexn + 'a \<Rightarrow> raised + 'a" where
  "lift_exn r = (case r of Inl e \<Rightarrow> Inl (Exc e) | Inr x \<Rightarrow> Inr x)"

definition bind_raised :: "raised + 'a \<Rightarrow> ('a \<Rightarrow> raised + 'b) \<Rightarrow> raised + 'b" where
  "bind_raised r f = (case r of Inl e \<Rightarrow> Inl e | Inr x \<Rightarrow> f x)"

definition squote :: "string \<Rightarrow> string" where
  "squote s = [CHR 0x27] @ s @ [CHR 0x27]"

fun type_name :: "json \<Rightarrow> string" where
  "type_name JNull = ''NoneType''"
| "type_name (JBool b) = ''bool''"
| "type_name (JInt i) = ''int''"
| "type_name (JStr s) = ''str''"
| "type_name (JList xs) = ''list''"
| "type_name (JObj kvs) = ''dict''"

text \<open>Truth value testing, as \<^verbatim>\<open>if x:\<close> and \<^verbatim>\<open>not x\<close> do it.\<close>

fun truthy :: "json \<Rightarrow> bool" where
  "truthy JNull = False"
| "truthy (JBool b) = b"
| "truthy (JInt i) = (i \<noteq> 0)"
| "truthy (JStr s) = (s \<noteq> [])"
| "truthy (JList xs) = (xs \<noteq> [])"
| "truthy (JObj kvs) = (kvs \<noteq> [])"

definition key_error :: "string \<Rightarrow> pyexn" where
  "key_error k = PyExn ''KeyError'' (squote k)"

definition attribute_error :: "json \<Rightarrow> string \<Rightarrow> pyexn" where
  "attribute_error x a =
     PyExn ''AttributeError'' (squote (type_name x) @ '' object has no attribute '' @ squote a)"

definition type_error :: "string \<Rightarrow> pyexn" where
  "type_error m = PyExn ''TypeError'' m"

text \<open>\<^verbatim>\<open>x.get(k, d)\<close>: only a dictionary has the method.\<close>

definition dict_get :: "json \<Rightarrow> string \<Rightarrow> json \<Rightarrow> pyexn + json" where
  "dict_get x k d =
     (case x of
        JObj kvs \<Rightarrow> Inr (case map_of kvs k of Some v \<Rightarrow> v | None \<Rightarrow> d)
      | _ \<Rightarrow> Inl (attribute_error x ''get''))"

text \<open>\<^verbatim>\<open>x[k]\<close> with a string key (message texts as CPython 3.11 prints them).\<close>

definition subscript :: "json \<Rightarrow> string \<Rightarrow> pyexn + json" where
  "subscript x k =
     (case x of
        JObj kvs \<Rightarrow> (case map_of kvs k of Some v \<Rightarrow> Inr v | None \<Rightarrow> Inl (key_error k))
      | JList xs \<Rightarrow> Inl (type_error ''list indices must be integers or slices, not str'')
      | JStr s \<Rightarrow> Inl (type_error (''string indices must be integers, not '' @ squote ''str''))
      | _ \<Rightarrow> Inl (type_error (squote (type_name x) @ '' object is not subscriptable'')))"

text \<open>
  \<^verbatim>\<open>for item in x\<close>: a list yields its items, a dictionary its keys, a string its
  characters (listed bytewise here; each is a \<^verbatim>\<open>str\<close> either way).
\<close>

definition py_iter :: "json \<Rightarrow> pyexn + json list" where
  "py_iter x =
     (case x of
        JList xs \<Rightarrow> Inr xs
      | JObj kvs \<Rightarrow> Inr (map (\<lambda>kv. JStr (fst kv)) kvs)
      | JStr s \<Rightarrow> Inr (map (\<lambda>c. JStr [c]) s)
      | _ \<Rightarrow> Inl (type_error (squote (type_name x) @ '' object is not iterable'')))"

fun starts_with :: "string \<Rightarrow> string \<Rightarrow> bool" where
  "starts_with s [] = True"
| "starts_with [] (k # ks) = False"
| "starts_with (c # cs) (k # ks) = (c = k \<and> starts_with cs ks)"

fun contains_str :: "string \<Rightarrow> string \<Rightarrow> bool" where
  "contains_str [] k = (k = [])"
| "contains_str (c # cs) k = (starts_with (c # cs) k \<or> contains_str cs k)"

text \<open>\<^verbatim>\<open>k in x\<close> for a string \<open>k\<close>: key, item or substring membership.\<close>

definition py_in :: "string \<Rightarrow> json \<Rightarrow> pyexn + bool" where
  "py_in k x =
     (case x of
        JObj kvs \<Rightarrow> Inr (map_of kvs k \<noteq> None)
      | JList xs \<Rightarrow> Inr (JStr k \<in> set xs)
      | JStr s \<Rightarrow> Inr (contains_str s k)
      | _ \<Rightarrow> Inl (type_error (''argument of type '' @ squote (type_name x) @ '' is not iterable'')))"

text \<open>\<^verbatim>\<open>x.lower()\<close>: only a string has the method.  ASCII letters are folded.\<close>

definition lower_char :: "char \<Rightarrow> char" where
  "lower_char c =
     (case map_of (zip ''ABCDEFGHIJKLMNOPQRSTUVWXYZ'' ''abcdefghijklmnopqrstuvwxyz'') c of
        Some d \<Rightarrow> d
      | None \<Rightarrow> c)"

definition str_lower :: "json \<Rightarrow> pyexn + string" where
  "str_lower x =
     (case x of
        JStr s \<Rightarrow> Inr (map lower_char s)
      | _ \<Rightarrow> Inl (attribute_error x ''lower''))"

text \<open>Decimal text of a number, as an f-string formats an \<^verbatim>\<open>int\<close>.\<close>

definition digit_char :: "nat \<Rightarrow> char" where
  "digit_char d = ''0123456789'' ! d"

fun str_nat :: "nat \<Rightarrow> string" where
  "str_nat n =
     (if n < 10 then [digit_char n] else str_nat (n div 10) @ [digit_char (n mod 10)])"

definition str_int :: "int \<Rightarrow> string" where
  "str_int i = (if i < 0 then ''-'' @ str_nat (nat (- i)) else str_nat (nat i))"

section \<open>Base64\<close>

text \<open>
  \<^verbatim>\<open>base64.b64encode\<close> on a byte string (RFC 4648, with padding), and the URL-safe
  variant, which writes \<^verbatim>\<open>-\<close> for \<^verbatim>\<open>+\<close> and \<^verbatim>\<open>_\<close> for \<^verbatim>\<open>/\<close>.
\<close>

definition b64_alphabet :: string where
  "b64_alphabet = ''ABCDEFGHIJKLMNOPQRSTUVWXYZabcdefghijklmnopqrstuvwxyz0123456789+/''"

definition b64_char :: "nat \<Rightarrow> char" where
  "b64_char n = b64_alphabet ! n"

fun b64encode :: "string \<Rightarrow> string" where
  "b64encode [] = []"
| "b64encode [a] =
     (let x = (of_char a :: nat)
      in [b64_char (x div 4), b64_char ((x mod 4) * 16), CHR ''='', CHR ''=''])"
| "b64encode [a, b] =
     (let x = (of_char a :: nat); y = (of_char b :: nat)
      in [b64_char (x div 4), b64_char ((x mod 4) * 16 + y div 16),
          b64_char ((y mod 16) * 4), CHR ''=''])"
| "b64encode (a # b # c # rest) =
     (let x = (of_char a :: nat); y = (of_char b :: nat); z = (of_char c :: nat)
      in [b64_char (x div 4), b64_char ((x mod 4) * 16 + y div 16),
          b64_char ((y mod 16) * 4 + z div 64), b64_char (z mod 64)] @ b64encode rest)"

definition urlsafe_char :: "char \<Rightarrow> char" where
  "urlsafe_char c = (if c = CHR ''+'' then CHR ''-'' else if c = CHR ''/'' then CHR ''_'' else c)"

definition urlsafe_b64encode :: "string \<Rightarrow> string" where
  "urlsafe_b64encode bs = map urlsafe_char (b64encode bs)"

text \<open>
  A reference decoder for \<^verbatim>\<open>base64.urlsafe_b64decode(s).decode()\<close>, used where a
  concrete run is evaluated.  It follows the lenient scan of CPython's
  \<^verbatim>\<open>binascii.a2b_base64\<close> (characters outside the alphabet are skipped, decoding stops at
  a completed padding) and then checks that the bytes are well-formed UTF-8.  The tool
  functions take the decoder from the environment, so nothing proved for every environment
  depends on this definition.
\<close>

definition b64_value :: "char \<Rightarrow> nat option" where
  "b64_value c = map_of (zip b64_alphabet [0..<64]) c"

definition emit :: "nat \<Rightarrow> pyexn + string \<Rightarrow> pyexn + string" where
  "emit b r = (case r of Inl e \<Rightarrow> Inl e | Inr bs \<Rightarrow> Inr (char_of b # bs))"

fun a2b_base64 :: "string \<Rightarrow> nat \<Rightarrow> nat \<Rightarrow> nat \<Rightarrow> pyexn + string" where
  "a2b_base64 [] quad_pos leftchar pads =
     (if quad_pos = 0 then Inr []
      else if quad_pos = 1 then Inl (PyExn ''binascii.Error'' ''Invalid base64-encoded string'')
      else Inl (PyExn ''binascii.Error'' ''Incorrect padding''))"
| "a2b_base64 (c # cs) quad_pos leftchar pads =
     (if c = CHR ''='' then
        (if 2 \<le> quad_pos \<and> 4 \<le> quad_pos + (pads + 1) then Inr []
         else a2b_base64 cs quad_pos leftchar (if 2 \<le> quad_pos then pads + 1 else pads))
      else
        (case b64_value c of
           None \<Rightarrow> a2b_base64 cs quad_pos leftchar pads
         | Some v \<Rightarrow>
             (if quad_pos = 0 then a2b_base64 cs 1 v 0
              else if quad_pos = 1 then
                emit (leftchar * 4 + v div 16) (a2b_base64 cs 2 (v mod 16) 0)
              else if quad_pos = 2 then
                emit (leftchar * 16 + v div 4) (a2b_base64 cs 3 (v mod 4) 0)
              else emit (leftchar * 64 + v) (a2b_base64 cs 0 0 0))))"

definition cont_byte :: "nat \<Rightarrow> bool" where
  "cont_byte b = (128 \<le> b \<and> b < 192)"

fun utf8_valid :: "nat list \<Rightarrow> bool" where
  "utf8_valid [] = True"
| "utf8_valid (b # bs) =
     (if b < 128 then utf8_valid bs
      else if 194 \<le> b \<and> b < 224 then
        (case bs of
           b1 # r \<Rightarrow> cont_byte b1 \<and> utf8_valid r
         | _ \<Rightarrow> False)
      else if 224 \<le> b \<and> b < 240 then
        (case bs of
           b1 # b2 # r \<Rightarrow>
             (if b = 224 then 160 \<le> b1 \<and> b1 < 192
              else if b = 237 then 128 \<le> b1 \<and> b1 < 160
              else cont_byte b1) \<and> cont_byte b2 \<and> utf8_valid r
         | _ \<Rightarrow> False)
      else if 240 \<le> b \<and> b < 245 then
        (case bs of
           b1 # b2 # b3 # r \<Rightarrow>
             (if b = 240 then 144 \<le> b1 \<and> b1 < 192
              else if b = 244 then 128 \<le> b1 \<and> b1 < 144
              else cont_byte b1) \<and> cont_byte b2 \<and> cont_byte b3 \<and> utf8_valid r
         | _ \<Rightarrow> False)
      else False)"

definition from_urlsafe :: "char \<Rightarrow> char" where
  "from_urlsafe c = (if c = CHR ''-'' then CHR ''+'' else if c = CHR ''_'' then CHR ''/'' else c)"

definition urlsafe_b64decode_utf8 :: "string \<Rightarrow> pyexn + string" where
  "urlsafe_b64decode_utf8 s =
     (if list_ex (\<lambda>c. 128 \<le> (of_char c :: nat)) s then
        Inl (PyExn ''ValueError'' ''string argument should contain only ASCII characters'')
      else
        (case a2b_base64 (map from_urlsafe s) 0 0 0 of
           Inl e \<Rightarrow> Inl e
         | Inr bs \<Rightarrow>
             (if utf8_valid (map of_char bs) then Inr bs
              else Inl (PyExn ''UnicodeDecodeError'' ''invalid utf-8''))))"

text \<open>
  A reference for \<^verbatim>\<open>s.encode()\<close>, used likewise: the bytes of the string, unless it holds
  a lone surrogate (the text of the exception is abridged).
\<close>

definition strict_utf8_encode :: "string \<Rightarrow> pyexn + string" where
  "strict_utf8_encode s =
     (if utf8_valid (map of_char s) then Inr s
      else Inl (PyExn ''UnicodeEncodeError''
                  (squote ''utf-8'' @ '' codec cannot encode: surrogates not allowed'')))"

section \<open>The environment of a call\<close>

text \<open>
  What the tools send over the network.  The Authorization header is the f-string
  \<^verbatim>\<open>f"token {token}"\<close>; \<open>TokenFmt t\<close> stands for that string, \<open>t\<close> being the token read
  from the credentials file.
\<close>

datatype header_value = Lit string | TokenFmt json

type_synonym headers = "(string \<times> header_value) list"

datatype http_method = GET | POST | PUT

datatype effect =
    OAuthRefresh
  | OAuthLocalServer
  | GmailList string string int
  | GmailGet string json string
  | GmailGetProfile string
  | GmailSend string json
  | GmailTrash string string
  | GmailDelete string string
  | HttpReq http_method string headers "json option"

text \<open>
  The requests to the Gmail API and to the GitHub REST API, as opposed to the token
  exchanges of the OAuth client.
\<close>

fun is_api_request :: "effect \<Rightarrow> bool" where
  "is_api_request OAuthRefresh = False"
| "is_api_request OAuthLocalServer = False"
| "is_api_request r = True"

definition api_requests :: "effect list \<Rightarrow> effect list" where
  "api_requests tr = filter is_api_request tr"

text \<open>A \<^verbatim>\<open>requests.Response\<close>: \<open>json_result\<close> is what \<^verbatim>\<open>response.json()\<close> does.\<close>

record http_response =
  status_code :: int
  text_of :: string
  json_result :: "pyexn + json"

text \<open>The fields of \<^verbatim>\<open>google.oauth2.credentials.Credentials\<close> that the code reads.\<close>

record creds =
  valid :: bool
  expired :: bool
  refresh_token :: json

datatype service = GmailService

text \<open>
  Everything outside the repository that a call depends on.  A remote answer may depend on
  the requests issued before it in the same call, so each remote takes that history.
  \<^item> \<open>gmail_token_file\<close>: \<^verbatim>\<open>TOKEN_PATH\<close> of \<^verbatim>\<open>email_utils\<close>: absent, or what reading,
    parsing and \<^verbatim>\<open>Credentials.from_authorized_user_info\<close> give;
  \<^item> \<open>credentials_json_exists\<close>: \<^verbatim>\<open>CREDENTIALS_PATH.exists()\<close>;
  \<^item> \<open>flow_from_client_secrets\<close>, \<open>save_token\<close>, \<open>build_gmail\<close>: the exception, if any,
    raised by \<^verbatim>\<open>InstalledAppFlow.from_client_secrets_file\<close>, by creating the directory and
    writing the token file, and by \<^verbatim>\<open>build("gmail", "v1", ...)\<close>;
  \<^item> \<open>oauth_exchange\<close>: \<^verbatim>\<open>creds.refresh(Request())\<close> and \<^verbatim>\<open>flow.run_local_server\<close>;
  \<^item> \<open>gmail_execute\<close>: \<^verbatim>\<open>.execute()\<close> of a Gmail API request;
  \<^item> \<open>http_send\<close>: \<^verbatim>\<open>requests.get\<close>, \<^verbatim>\<open>requests.post\<close>, \<^verbatim>\<open>requests.put\<close>;
  \<^item> \<open>github_token_file\<close>: \<^verbatim>\<open>TOKEN_PATH\<close> of \<^verbatim>\<open>github_utils\<close>: absent, or what reading
    and \<^verbatim>\<open>json.loads\<close> give;
  \<^item> \<open>decode_b64_utf8\<close>: \<^verbatim>\<open>base64.urlsafe_b64decode(s).decode()\<close> on a string;
  \<^item> \<open>encode_utf8\<close>: \<^verbatim>\<open>s.encode()\<close> on a string, which raises for a lone surrogate;
  \<^item> \<open>mime_as_bytes\<close>: the bytes of the \<^verbatim>\<open>MIMEMultipart\<close> message that
    \<^verbatim>\<open>create_message\<close> assembles from sender, recipient, subject, text and HTML flag.
\<close>

record world =
  gmail_token_file :: "(pyexn + creds) option"
  credentials_json_exists :: bool
  flow_from_client_secrets :: "pyexn option"
  save_token :: "pyexn option"
  build_gmail :: "pyexn option"
  oauth_exchange :: "effect list \<Rightarrow> effect \<Rightarrow> raised option"
  gmail_execute :: "effect list \<Rightarrow> effect \<Rightarrow> raised + json"
  http_send :: "effect list \<Rightarrow> effect \<Rightarrow> raised + http_response"
  github_token_file :: "(pyexn + json) option"
  decode_b64_utf8 :: "string \<Rightarrow> pyexn + string"
  encode_utf8 :: "string \<Rightarrow> pyexn + string"
  mime_as_bytes :: "json \<Rightarrow> string \<Rightarrow> string \<Rightarrow> string \<Rightarrow> bool \<Rightarrow> pyexn + string"

section \<open>Computations that issue requests and may raise\<close>

text \<open>
  A computation takes the requests issued so far and gives a value or an exception,
  together with the requests issued by then.
\<close>

type_synonym 'a io = "effect list \<Rightarrow> (raised + 'a) \<times> effect list"

definition return_io :: "'a \<Rightarrow> 'a io" where
  "return_io x tr = (Inr x, tr)"

text \<open>A step that issues nothing; what it raises is derived from \<^verbatim>\<open>Exception\<close>.\<close>

definition lift_io :: "pyexn + 'a \<Rightarrow> 'a io" where
  "lift_io r tr = (lift_exn r, tr)"

definition bind_io :: "'a io \<Rightarrow> ('a \<Rightarrow> 'b io) \<Rightarrow> 'b io" where
  "bind_io m f tr =
     (case m tr of
        (Inl e, tr') \<Rightarrow> (Inl e, tr')
      | (Inr x, tr') \<Rightarrow> f x tr')"

text \<open>
  \<^verbatim>\<open>try: ... except Exception as e: return handler(e)\<close> around a body that returns.  An
  exception that is not derived from \<^verbatim>\<open>Exception\<close> passes through.
\<close>

definition try_except :: "'a io \<Rightarrow> (pyexn \<Rightarrow> 'a) \<Rightarrow> 'a io" where
  "try_except body handler tr =
     (case body tr of
        (Inl (Exc e), tr') \<Rightarrow> (Inr (handler e), tr')
      | (Inl (Base b), tr') \<Rightarrow> (Inl (Base b), tr')
      | (Inr x, tr') \<Rightarrow> (Inr x, tr'))"

definition raise_opt :: "pyexn option \<Rightarrow> unit io" where
  "raise_opt r = lift_io (case r of None \<Rightarrow> Inr () | Some e \<Rightarrow> Inl e)"

definition oauth_call :: "world \<Rightarrow> effect \<Rightarrow> unit io" where
  "oauth_call w r tr = ((case oauth_exchange w tr r of None \<Rightarrow> Inr () | Some e \<Rightarrow> Inl e), tr @ [r])"

definition gmail_call :: "world \<Rightarrow> effect \<Rightarrow> json io" where
  "gmail_call w r tr = (gmail_execute w tr r, tr @ [r])"

definition http_call :: "world \<Rightarrow> effect \<Rightarrow> http_response io" where
  "http_call w r tr = (http_send w tr r, tr @ [r])"

text \<open>One invocation of a tool starts with no request issued.\<close>

definition result_of :: "'a io \<Rightarrow> raised + 'a" where
  "result_of m = fst (m [])"

definition trace_of :: "'a io \<Rightarrow> effect list" where
  "trace_of m = snd (m [])"

section \<open>\<^verbatim>\<open>email_utils.py\<close>\<close>

text \<open>The tail of \<^verbatim>\<open>get_gmail_service\<close>: save the credentials, build the service.\<close>

definition build_service :: "world \<Rightarrow> service option io" where
  "build_service w =
     bind_io (raise_opt (build_gmail w)) (\<lambda>u. return_io (Some GmailService))"

definition save_and_build :: "world \<Rightarrow> service option io" where
  "save_and_build w = bind_io (raise_opt (save_token w)) (\<lambda>u. build_service w)"

definition run_flow :: "world \<Rightarrow> service option io" where
  "run_flow w =
     (if \<not> credentials_json_exists w then return_io None
      else
        bind_io (raise_opt (flow_from_client_secrets w)) (\<lambda>u.
        bind_io (oauth_call w OAuthLocalServer) (\<lambda>u.
        save_and_build w)))"

definition get_gmail_service :: "world \<Rightarrow> service option io" where
  "get_gmail_service w =
     bind_io
       (case gmail_token_file w of
          None \<Rightarrow> return_io None
        | Some r \<Rightarrow> bind_io (lift_io r) (\<lambda>c. return_io (Some c)))
       (\<lambda>cr.
          case cr of
            None \<Rightarrow> run_flow w
          | Some c \<Rightarrow>
              (if valid c then build_service w
               else if expired c \<and> truthy (refresh_token c) then
                 bind_io (oauth_call w OAuthRefresh) (\<lambda>u. save_and_build w)
               else run_flow w))"

definition create_message ::
    "world \<Rightarrow> json \<Rightarrow> string \<Rightarrow> string \<Rightarrow> string \<Rightarrow> bool \<Rightarrow> pyexn + json" where
  "create_message w sender to subject message_text is_html =
     (case mime_as_bytes w sender to subject message_text is_html of
        Inl e \<Rightarrow> Inl e
      | Inr bytes \<Rightarrow> Inr (JObj [(''raw'', JStr (urlsafe_b64encode bytes))]))"

text \<open>Sequencing of pure steps that may raise.\<close>

definition bind_exn :: "pyexn + 'a \<Rightarrow> ('a \<Rightarrow> pyexn + 'b) \<Rightarrow> pyexn + 'b" where
  "bind_exn r f = (case r of Inl e \<Rightarrow> Inl e | Inr x \<Rightarrow> f x)"

text \<open>
  \<^verbatim>\<open>headers[header['name'].lower()] = header['value']\<close> for each header: the right-hand
  side is evaluated first, a later header overwrites an earlier one of the same folded name.
\<close>

fun collect_headers :: "json list \<Rightarrow> (string \<times> json) list \<Rightarrow> pyexn + (string \<times> json) list" where
  "collect_headers [] acc = Inr acc"
| "collect_headers (header # rest) acc =
     (case subscript header ''value'' of
        Inl e \<Rightarrow> Inl e
      | Inr v \<Rightarrow>
          (case bind_exn (subscript header ''name'') str_lower of
             Inl e \<Rightarrow> Inl e
           | Inr k \<Rightarrow> collect_headers rest (AList.update k v acc)))"

text \<open>\<^verbatim>\<open>base64.urlsafe_b64decode(d).decode()\<close>: anything but a string is a TypeError.\<close>

definition decode_data :: "world \<Rightarrow> json \<Rightarrow> pyexn + string" where
  "decode_data w d =
     (case d of
        JStr s \<Rightarrow> decode_b64_utf8 w s
      | _ \<Rightarrow> Inl (type_error (''argument should be a bytes-like object or ASCII string, not ''
                 @ squote (type_name d))))"

text \<open>The loop over \<^verbatim>\<open>message['payload']['parts']\<close>, which stops at the first plain-text part.\<close>

fun scan_parts :: "world \<Rightarrow> json list \<Rightarrow> pyexn + string" where
  "scan_parts w [] = Inr []"
| "scan_parts w (part # rest) =
     (case subscript part ''mimeType'' of
        Inl e \<Rightarrow> Inl e
      | Inr mt \<Rightarrow>
          (if mt = JStr ''text/plain'' then
             bind_exn (subscript part ''body'') (\<lambda>b.
             bind_exn (subscript b ''data'') (decode_data w))
           else scan_parts w rest))"

definition payload_of :: "json \<Rightarrow> pyexn + json" where
  "payload_of message = dict_get message ''payload'' (JObj [])"

definition body_steps :: "world \<Rightarrow> json \<Rightarrow> pyexn + string" where
  "body_steps w message =
     bind_exn (payload_of message) (\<lambda>payload.
     bind_exn (py_in ''parts'' payload) (\<lambda>has_parts.
       if has_parts then
         bind_exn (subscript message ''payload'') (\<lambda>p.
         bind_exn (subscript p ''parts'') (\<lambda>parts.
         bind_exn (py_iter parts) (scan_parts w)))
       else
         bind_exn (payload_of message) (\<lambda>payload.
         bind_exn (py_in ''body'' payload) (\<lambda>has_body.
           if \<not> has_body then Inr []
           else
             bind_exn (subscript message ''payload'') (\<lambda>p.
             bind_exn (subscript p ''body'') (\<lambda>b.
             bind_exn (py_in ''data'' b) (\<lambda>has_data.
               if \<not> has_data then Inr []
               else
                 bind_exn (subscript message ''payload'') (\<lambda>p.
                 bind_exn (subscript p ''body'') (\<lambda>b.
                 bind_exn (subscript b ''data'') (decode_data w))))))))))"

text \<open>The \<^verbatim>\<open>try\<close> block of \<^verbatim>\<open>format_message\<close> with its handler.\<close>

definition extract_body :: "world \<Rightarrow> json \<Rightarrow> string" where
  "extract_body w message =
     (case body_steps w message of
        Inl e \<Rightarrow> ''[Could not decode message body]''
      | Inr body \<Rightarrow> body)"

definition header_or :: "(string \<times> json) list \<Rightarrow> string \<Rightarrow> string \<Rightarrow> json" where
  "header_or hs k d = (case map_of hs k of Some v \<Rightarrow> v | None \<Rightarrow> JStr d)"

definition format_message :: "world \<Rightarrow> json \<Rightarrow> pyexn + json" where
  "format_message w message =
     bind_exn (payload_of message) (\<lambda>payload.
     bind_exn (dict_get payload ''headers'' (JList [])) (\<lambda>hl.
     bind_exn (py_iter hl) (\<lambda>items.
     bind_exn (collect_headers items []) (\<lambda>hs.
     bind_exn (Inr (extract_body w message)) (\<lambda>body.
     bind_exn (dict_get message ''id'' (JStr [])) (\<lambda>mid.
     bind_exn (dict_get message ''threadId'' (JStr [])) (\<lambda>thread.
     bind_exn (dict_get message ''snippet'' (JStr [])) (\<lambda>snippet.
       Inr (JObj
         [(''id'', mid),
          (''thread_id'', thread),
          (''from'', header_or hs ''from'' ''Unknown''),
          (''to'', header_or hs ''to'' ''Unknown''),
          (''subject'', header_or hs ''subject'' ''(No Subject)''),
          (''date'', header_or hs ''date'' ''Unknown''),
          (''snippet'', snippet),
          (''body'', JStr body)])))))))))"

section \<open>The email tools\<close>

text \<open>
  Every tool function is one \<^verbatim>\<open>try\<close> block under the handler
  \<^verbatim>\<open>except Exception as e\<close>: the block is the definition named \<open>_body\<close>, the dictionary
  that the handler returns the one named \<open>_handler\<close>.
\<close>

definition gmail_auth_message :: string where
  "gmail_auth_message = ''Failed to authenticate with Gmail. Please check credentials.''"

text \<open>The loop of \<^verbatim>\<open>list_emails\<close> over the listed messages.\<close>

fun fetch_emails :: "world \<Rightarrow> json list \<Rightarrow> json list \<Rightarrow> json list io" where
  "fetch_emails w [] emails = return_io emails"
| "fetch_emails w (msg # rest) emails =
     bind_io (lift_io (subscript msg ''id'')) (\<lambda>mid.
     bind_io (gmail_call w (GmailGet ''me'' mid ''full'')) (\<lambda>message.
     bind_io (lift_io (format_message w message)) (\<lambda>formatted.
     fetch_emails w rest (emails @ [formatted]))))"

definition search_query :: "string \<Rightarrow> string \<Rightarrow> string" where
  "search_query label query =
     (if query \<noteq> [] then (''label:'' @ label) @ '' '' @ query else ''label:'' @ label)"

definition list_emails_body ::
    "world \<Rightarrow> int \<Rightarrow> string \<Rightarrow> string \<Rightarrow> json io" where
  "list_emails_body w max_results query label =
     bind_io (get_gmail_service w) (\<lambda>svc.
       case svc of
         None \<Rightarrow>
           return_io (JObj
             [(''status'', JStr ''error''),
              (''message'', JStr gmail_auth_message),
              (''emails'', JList [])])
       | Some sv \<Rightarrow>
           bind_io (gmail_call w (GmailList ''me'' (search_query label query) max_results))
             (\<lambda>results.
           bind_io (lift_io (dict_get results ''messages'' (JList []))) (\<lambda>messages.
             if \<not> truthy messages then
               return_io (JObj
                 [(''status'', JStr ''success''),
                  (''message'', JStr ''No emails found.''),
                  (''emails'', JList [])])
             else
               bind_io (lift_io (py_iter messages)) (\<lambda>msgs.
               bind_io (fetch_emails w msgs []) (\<lambda>emails.
               return_io (JObj
                 [(''status'', JStr ''success''),
                  (''message'', JStr (''Found '' @ str_nat (length emails) @ '' emails.'')),
                  (''emails'', JList emails)]))))))"

definition list_emails_handler :: "pyexn \<Rightarrow> json" where
  "list_emails_handler e =
     JObj
       [(''status'', JStr ''error''),
        (''message'', JStr (''Error listing emails: '' @ exn_str e)),
        (''emails'', JList [])]"

definition list_emails ::
    "world \<Rightarrow> int \<Rightarrow> string \<Rightarrow> string \<Rightarrow> json io" where
  "list_emails w max_results query label =
     try_except (list_emails_body w max_results query label)
       list_emails_handler"

definition read_email_body :: "world \<Rightarrow> string \<Rightarrow> json io" where
  "read_email_body w email_id =
     bind_io (get_gmail_service w) (\<lambda>svc.
       case svc of
         None \<Rightarrow>
           return_io (JObj
             [(''status'', JStr ''error''),
              (''message'', JStr gmail_auth_message)])
       | Some sv \<Rightarrow>
           bind_io (gmail_call w (GmailGet ''me'' (JStr email_id) ''full'')) (\<lambda>message.
           bind_io (lift_io (format_message w message)) (\<lambda>formatted.
           return_io (JObj
             [(''status'', JStr ''success''),
              (''message'', JStr ''Email retrieved successfully''),
              (''email'', formatted)]))))"

definition read_email_handler :: "pyexn \<Rightarrow> json" where
  "read_email_handler e =
     JObj
       [(''status'', JStr ''error''),
        (''message'', JStr (''Error reading email: '' @ exn_str e))]"

definition read_email :: "world \<Rightarrow> string \<Rightarrow> json io" where
  "read_email w email_id =
     try_except (read_email_body w email_id)
       read_email_handler"

definition send_email_body ::
    "world \<Rightarrow> string \<Rightarrow> string \<Rightarrow> string \<Rightarrow> bool \<Rightarrow> json io" where
  "send_email_body w to subject body is_html =
     bind_io (get_gmail_service w) (\<lambda>svc.
       case svc of
         None \<Rightarrow>
           return_io (JObj
             [(''status'', JStr ''error''),
              (''message'', JStr gmail_auth_message)])
       | Some sv \<Rightarrow>
           bind_io (gmail_call w (GmailGetProfile ''me'')) (\<lambda>profile.
           bind_io (lift_io (dict_get profile ''emailAddress'' JNull)) (\<lambda>sender.
           bind_io (lift_io (create_message w sender to subject body is_html)) (\<lambda>message.
           bind_io (gmail_call w (GmailSend ''me'' message)) (\<lambda>sent_message.
           bind_io (lift_io (subscript sent_message ''id'')) (\<lambda>message_id.
           return_io (JObj
             [(''status'', JStr ''success''),
              (''message'', JStr ''Email sent successfully''),
              (''message_id'', message_id)])))))))"

definition send_email_handler :: "pyexn \<Rightarrow> json" where
  "send_email_handler e =
     JObj
       [(''status'', JStr ''error''),
        (''message'', JStr (''Error sending email: '' @ exn_str e))]"

definition send_email ::
    "world \<Rightarrow> string \<Rightarrow> string \<Rightarrow> string \<Rightarrow> bool \<Rightarrow> json io" where
  "send_email w to subject body is_html =
     try_except (send_email_body w to subject body is_html)
       send_email_handler"

definition delete_email_body :: "world \<Rightarrow> string \<Rightarrow> bool \<Rightarrow> json io" where
  "delete_email_body w email_id trash =
     bind_io (get_gmail_service w) (\<lambda>svc.
       case svc of
         None \<Rightarrow>
           return_io (JObj
             [(''status'', JStr ''error''),
              (''message'', JStr gmail_auth_message)])
       | Some sv \<Rightarrow>
           bind_io
             (if trash then
                bind_io (gmail_call w (GmailTrash ''me'' email_id)) (\<lambda>r.
                return_io ''moved to trash'')
              else
                bind_io (gmail_call w (GmailDelete ''me'' email_id)) (\<lambda>r.
                return_io ''permanently deleted''))
             (\<lambda>action.
           return_io (JObj
             [(''status'', JStr ''success''),
              (''message'', JStr (''Email '' @ action @ '' successfully''))])))"

definition delete_email_handler :: "pyexn \<Rightarrow> json" where
  "delete_email_handler e =
     JObj
       [(''status'', JStr ''error''),
        (''message'', JStr (''Error deleting email: '' @ exn_str e))]"

definition delete_email :: "world \<Rightarrow> string \<Rightarrow> bool \<Rightarrow> json io" where
  "delete_email w email_id trash =
     try_except (delete_email_body w email_id trash)
       delete_email_handler"

section \<open>\<^verbatim>\<open>github_utils.py\<close>\<close>

text \<open>
  \<^verbatim>\<open>get_github_auth\<close> catches every exception itself and answers \<^verbatim>\<open>(None, None)\<close>.
\<close>

definition get_github_auth :: "world \<Rightarrow> json \<times> json" where
  "get_github_auth w =
     (case github_token_file w of
        None \<Rightarrow> (JNull, JNull)
      | Some r \<Rightarrow>
          (case bind_exn r (\<lambda>credentials.
                  bind_exn (dict_get credentials ''username'' JNull) (\<lambda>username.
                  bind_exn (dict_get credentials ''token'' JNull) (\<lambda>token.
                  Inr (username, token)))) of
             Inl e \<Rightarrow> (JNull, JNull)
           | Inr ut \<Rightarrow> ut))"

definition get_github_headers :: "world \<Rightarrow> headers option" where
  "get_github_headers w =
     (case get_github_auth w of
        (username, token) \<Rightarrow>
          (if \<not> truthy username \<or> \<not> truthy token then None
           else Some
             [(''Accept'', Lit ''application/vnd.github.v3+json''),
              (''Authorization'', TokenFmt token)]))"

section \<open>The GitHub tools\<close>

definition github_auth_message :: string where
  "github_auth_message = ''Failed to authenticate with GitHub. Please check credentials.''"

text \<open>\<^verbatim>\<open>f"GitHub API error: {response.status_code} - {response.text}"\<close>\<close>

definition api_error_message :: "http_response \<Rightarrow> string" where
  "api_error_message response =
     ''GitHub API error: '' @ str_int (status_code response) @ '' - '' @ text_of response"

text \<open>
  A dictionary literal whose values are \<^verbatim>\<open>x.get(field)\<close>, evaluated in order: the pairs
  are the new key and the field read.
\<close>

fun pick :: "json \<Rightarrow> (string \<times> string) list \<Rightarrow> pyexn + (string \<times> json) list" where
  "pick x [] = Inr []"
| "pick x ((k, field) # rest) =
     (case dict_get x field JNull of
        Inl e \<Rightarrow> Inl e
      | Inr v \<Rightarrow> (case pick x rest of Inl e \<Rightarrow> Inl e | Inr kvs \<Rightarrow> Inr ((k, v) # kvs)))"

fun map_exn :: "('a \<Rightarrow> pyexn + 'b) \<Rightarrow> 'a list \<Rightarrow> pyexn + 'b list" where
  "map_exn f [] = Inr []"
| "map_exn f (x # xs) =
     (case f x of
        Inl e \<Rightarrow> Inl e
      | Inr y \<Rightarrow> (case map_exn f xs of Inl e \<Rightarrow> Inl e | Inr ys \<Rightarrow> Inr (y # ys)))"

definition format_repo :: "json \<Rightarrow> pyexn + json" where
  "format_repo repo =
     bind_exn
       (pick repo
          [(''id'', ''id''), (''name'', ''name''), (''full_name'', ''full_name''),
           (''description'', ''description''), (''url'', ''html_url''),
           (''private'', ''private''), (''created_at'', ''created_at''),
           (''updated_at'', ''updated_at''), (''language'', ''language'')])
       (\<lambda>kvs. Inr (JObj kvs))"

definition list_repositories_body :: "world \<Rightarrow> json io" where
  "list_repositories_body w =
     (case get_github_headers w of
        None \<Rightarrow>
          return_io (JObj
            [(''status'', JStr ''error''),
             (''message'', JStr github_auth_message),
             (''repositories'', JList [])])
      | Some hdrs \<Rightarrow>
          bind_io (http_call w (HttpReq GET ''https://api.github.com/user/repos'' hdrs None))
            (\<lambda>response.
            if status_code response \<noteq> 200 then
              return_io (JObj
                [(''status'', JStr ''error''),
                 (''message'', JStr (api_error_message response)),
                 (''repositories'', JList [])])
            else
              bind_io (lift_io (json_result response)) (\<lambda>repos.
              if \<not> truthy repos then
                return_io (JObj
                  [(''status'', JStr ''success''),
                   (''message'', JStr ''No repositories found.''),
                   (''repositories'', JList [])])
              else
                bind_io (lift_io (bind_exn (py_iter repos) (map_exn format_repo)))
                  (\<lambda>formatted_repos.
                return_io (JObj
                  [(''status'', JStr ''success''),
                   (''message'',
                      JStr (''Found '' @ str_nat (length formatted_repos) @ '' repositories.'')),
                   (''repositories'', JList formatted_repos)])))))"

definition list_repositories_handler :: "pyexn \<Rightarrow> json" where
  "list_repositories_handler e =
     JObj
       [(''status'', JStr ''error''),
        (''message'', JStr (''Error listing repositories: '' @ exn_str e)),
        (''repositories'', JList [])]"

definition list_repositories :: "world \<Rightarrow> json io" where
  "list_repositories w =
     try_except (list_repositories_body w)
       list_repositories_handler"

definition create_repository_body ::
    "world \<Rightarrow> string \<Rightarrow> string \<Rightarrow> bool \<Rightarrow> json io" where
  "create_repository_body w name description private =
     (case get_github_headers w of
        None \<Rightarrow>
          return_io (JObj
            [(''status'', JStr ''error''),
             (''message'', JStr github_auth_message)])
      | Some hdrs \<Rightarrow>
          bind_io
            (http_call w (HttpReq POST ''https://api.github.com/user/repos'' hdrs
               (Some (JObj
                  [(''name'', JStr name),
                   (''description'', JStr description),
                   (''private'', JBool private),
                   (''auto_init'', JBool True)]))))
            (\<lambda>response.
            if status_code response \<notin> {200, 201} then
              return_io (JObj
                [(''status'', JStr ''error''),
                 (''message'', JStr (api_error_message response))])
            else
              bind_io (lift_io (json_result response)) (\<lambda>repo.
              bind_io
                (lift_io (pick repo
                   [(''id'', ''id''), (''name'', ''name''), (''full_name'', ''full_name''),
                    (''description'', ''description''), (''url'', ''html_url''),
                    (''clone_url'', ''clone_url''), (''private'', ''private'')]))
                (\<lambda>kvs.
              return_io (JObj
                [(''status'', JStr ''success''),
                 (''message'',
                    JStr (''Repository '' @ squote name @ '' created successfully.'')),
                 (''repository'', JObj kvs)])))))"

definition create_repository_handler :: "pyexn \<Rightarrow> json" where
  "create_repository_handler e =
     JObj
       [(''status'', JStr ''error''),
        (''message'', JStr (''Error creating repository: '' @ exn_str e))]"

definition create_repository ::
    "world \<Rightarrow> string \<Rightarrow> string \<Rightarrow> bool \<Rightarrow> json io" where
  "create_repository w name description private =
     try_except (create_repository_body w name description private)
       create_repository_handler"

definition format_item :: "json \<Rightarrow> pyexn + json" where
  "format_item item =
     bind_exn
       (pick item
          [(''name'', ''name''), (''path'', ''path''), (''type'', ''type''),
           (''size'', ''size''), (''url'', ''html_url'')])
       (\<lambda>kvs. Inr (JObj kvs))"

definition contents_url :: "string \<Rightarrow> string \<Rightarrow> string" where
  "contents_url repo_name path =
     (if path \<noteq> [] then (''https://api.github.com/repos/'' @ repo_name @ ''/contents'') @ ''/'' @ path
      else ''https://api.github.com/repos/'' @ repo_name @ ''/contents'')"

definition scan_repository_body :: "world \<Rightarrow> string \<Rightarrow> string \<Rightarrow> json io" where
  "scan_repository_body w repo_name path =
     (case get_github_headers w of
        None \<Rightarrow>
          return_io (JObj
            [(''status'', JStr ''error''),
             (''message'', JStr github_auth_message),
             (''contents'', JList [])])
      | Some hdrs \<Rightarrow>
          bind_io (http_call w (HttpReq GET (contents_url repo_name path) hdrs None))
            (\<lambda>response.
            if status_code response \<noteq> 200 then
              return_io (JObj
                [(''status'', JStr ''error''),
                 (''message'', JStr (api_error_message response)),
                 (''contents'', JList [])])
            else
              bind_io (lift_io (json_result response)) (\<lambda>contents.
              if \<not> truthy contents then
                return_io (JObj
                  [(''status'', JStr ''success''),
                   (''message'', JStr ''No contents found.''),
                   (''contents'', JList [])])
              else
                bind_io
                  (lift_io
                     (case contents of
                        JList items \<Rightarrow> map_exn format_item items
                      | _ \<Rightarrow> bind_exn (format_item contents) (\<lambda>d. Inr [d])))
                  (\<lambda>formatted_contents.
                return_io (JObj
                  [(''status'', JStr ''success''),
                   (''message'',
                      JStr (''Found '' @ str_nat (length formatted_contents)
                            @ '' items in repository.'')),
                   (''contents'', JList formatted_contents)])))))"

definition scan_repository_handler :: "pyexn \<Rightarrow> json" where
  "scan_repository_handler e =
     JObj
       [(''status'', JStr ''error''),
        (''message'', JStr (''Error scanning repository: '' @ exn_str e)),
        (''contents'', JList [])]"

definition scan_repository :: "world \<Rightarrow> string \<Rightarrow> string \<Rightarrow> json io" where
  "scan_repository w repo_name path =
     try_except (scan_repository_body w repo_name path)
       scan_repository_handler"

definition file_url :: "string \<Rightarrow> string \<Rightarrow> string" where
  "file_url repo_name file_path =
     ''https://api.github.com/repos/'' @ repo_name @ ''/contents/'' @ file_path"

text \<open>
  The request body of the PUT, from the commit message, the bytes that
  \<^verbatim>\<open>content.encode()\<close> gave and the \<^verbatim>\<open>sha\<close>: the \<^verbatim>\<open>sha\<close> key is added only for a
  truthy value.
\<close>

definition put_data :: "string \<Rightarrow> string \<Rightarrow> json \<Rightarrow> json" where
  "put_data commit_message encoded sha =
     JObj
       ([(''message'', JStr commit_message), (''content'', JStr (b64encode encoded))]
        @ (if truthy sha then [(''sha'', sha)] else []))"

text \<open>
  \<^verbatim>\<open>sha = None\<close>, replaced by \<^verbatim>\<open>response.json().get("sha")\<close> when the GET answered 200.
\<close>

definition existing_sha :: "http_response \<Rightarrow> pyexn + json" where
  "existing_sha response =
     (if status_code response = 200 then
        bind_exn (json_result response) (\<lambda>j. dict_get j ''sha'' JNull)
      else Inr JNull)"

definition push_to_repository_body ::
    "world \<Rightarrow> string \<Rightarrow> string \<Rightarrow> string \<Rightarrow> string \<Rightarrow> json io" where
  "push_to_repository_body w repo_name file_path content commit_message =
     (case get_github_headers w of
        None \<Rightarrow>
          return_io (JObj
            [(''status'', JStr ''error''),
             (''message'', JStr github_auth_message)])
      | Some hdrs \<Rightarrow>
          bind_io (http_call w (HttpReq GET (file_url repo_name file_path) hdrs None))
            (\<lambda>response.
          bind_io (lift_io (existing_sha response)) (\<lambda>sha.
          bind_io (lift_io (encode_utf8 w content)) (\<lambda>encoded.
          bind_io
            (http_call w (HttpReq PUT (file_url repo_name file_path) hdrs
               (Some (put_data commit_message encoded sha))))
            (\<lambda>response.
            if status_code response \<notin> {200, 201} then
              return_io (JObj
                [(''status'', JStr ''error''),
                 (''message'', JStr (api_error_message response))])
            else
              bind_io (lift_io (json_result response)) (\<lambda>result.
              bind_io
                (lift_io
                   (bind_exn (dict_get result ''commit'' (JObj [])) (\<lambda>c.
                    dict_get c ''sha'' JNull)))
                (\<lambda>commit_sha.
              bind_io
                (lift_io
                   (bind_exn (dict_get result ''commit'' (JObj [])) (\<lambda>c.
                    dict_get c ''html_url'' JNull)))
                (\<lambda>commit_url.
              return_io (JObj
                [(''status'', JStr ''success''),
                 (''message'',
                    JStr (''File '' @ squote file_path @ '' pushed to repository successfully.'')),
                 (''commit'', JObj [(''sha'', commit_sha), (''url'', commit_url)])])))))))))"

definition push_to_repository_handler :: "pyexn \<Rightarrow> json" where
  "push_to_repository_handler e =
     JObj
       [(''status'', JStr ''error''),
        (''message'', JStr (''Error pushing to repository: '' @ exn_str e))]"

definition push_to_repository ::
    "world \<Rightarrow> string \<Rightarrow> string \<Rightarrow> string \<Rightarrow> string \<Rightarrow> json io" where
  "push_to_repository w repo_name file_path content commit_message =
     try_except (push_to_repository_body w repo_name file_path content commit_message)
       push_to_repository_handler"

section \<open>The package initialiser \<^verbatim>\<open>tools/__init__.py\<close>\<close>

text \<open>
  The initialiser is a sequence of \<^verbatim>\<open>from .module import names\<close> statements followed by
  the list \<^verbatim>\<open>__all__\<close>.  Whether a submodule can be imported, and which names it then
  defines, is a parameter: the calendar modules are not among the sources.
\<close>

definition init_imports :: "(string \<times> string list) list" where
  "init_imports =
     [(''calendar_utils'', [''get_current_time'']),
      (''create_event'', [''create_event'']),
      (''delete_event'', [''delete_event'']),
      (''edit_event'', [''edit_event'']),
      (''list_events'', [''list_events'']),
      (''delete_email'', [''delete_email'']),
      (''list_emails'', [''list_emails'']),
      (''read_email'', [''read_email'']),
      (''send_email'', [''send_email'']),
      (''github_tools'',
         [''list_repositories'', ''create_repository'', ''scan_repository'',
          ''push_to_repository''])]"

definition dunder_all :: "string list" where
  "dunder_all =
     [''create_event'', ''delete_event'', ''edit_event'', ''list_events'', ''get_current_time'',
      ''delete_email'', ''list_emails'', ''read_email'', ''send_email'',
      ''list_repositories'', ''create_repository'', ''scan_repository'', ''push_to_repository'']"

text \<open>A name of the package is bound to a submodule or to an attribute of one.\<close>

datatype binding = Submodule string | Attr string string

type_synonym modules = "string \<Rightarrow> pyexn + string list"

fun bind_names ::
    "string \<Rightarrow> string list \<Rightarrow> string list \<Rightarrow> (string \<times> binding) list
      \<Rightarrow> pyexn + (string \<times> binding) list" where
  "bind_names m defined [] ns = Inr ns"
| "bind_names m defined (n # rest) ns =
     (if n \<in> set defined then bind_names m defined rest (AList.update n (Attr m n) ns)
      else Inl (PyExn ''ImportError'' (''cannot import name '' @ squote n)))"

fun run_imports ::
    "modules \<Rightarrow> (string \<times> string list) list \<Rightarrow> (string \<times> binding) list
      \<Rightarrow> pyexn + (string \<times> binding) list" where
  "run_imports ms [] ns = Inr ns"
| "run_imports ms ((m, names) # rest) ns =
     (case ms m of
        Inl e \<Rightarrow> Inl e
      | Inr defined \<Rightarrow>
          (case bind_names m defined names (AList.update m (Submodule m) ns) of
             Inl e \<Rightarrow> Inl e
           | Inr ns' \<Rightarrow> run_imports ms rest ns'))"

definition import_package :: "modules \<Rightarrow> pyexn + (string \<times> binding) list" where
  "import_package ms = run_imports ms init_imports []"

definition module_not_found :: "string \<Rightarrow> pyexn" where
  "module_not_found m =
     PyExn ''ModuleNotFoundError'' (''No module named '' @ squote (''app.jarvis.tools.'' @ m))"

text \<open>The submodules under \<^verbatim>\<open>app/jarvis/tools\<close> of the source tree and the names they define.\<close>

definition source_tree :: modules where
  "source_tree m =
     (case map_of
        [(''delete_email'', [''get_gmail_service'', ''delete_email'']),
         (''email_utils'', [''get_gmail_service'', ''create_message'', ''format_message'']),
         (''github_tools'',
            [''get_github_auth'', ''get_github_headers'', ''list_repositories'',
             ''create_repository'', ''scan_repository'', ''push_to_repository'']),
         (''github_utils'',
            [''get_github_auth'', ''get_github_headers'', ''test_github_connection'']),
         (''list_emails'', [''get_gmail_service'', ''format_message'', ''list_emails'']),
         (''read_email'', [''get_gmail_service'', ''format_message'', ''read_email'']),
         (''send_email'', [''get_gmail_service'', ''create_message'', ''send_email''])] m of
        Some names \<Rightarrow> Inr names
      | None \<Rightarrow> Inl (module_not_found m))"

text \<open>The same tree with the five calendar modules that the initialiser names.\<close>

definition with_calendar :: modules where
  "with_calendar m =
     (case map_of
        [(''calendar_utils'', [''get_current_time'']),
         (''create_event'', [''create_event'']),
         (''delete_event'', [''delete_event'']),
         (''edit_event'', [''edit_event'']),
         (''list_events'', [''list_events''])] m of
        Some names \<Rightarrow> Inr names
      | None \<Rightarrow> source_tree m)"

text \<open>The operations that the specification advertises.\<close>

definition advertised :: "string list" where
  "advertised =
     [''list_emails'', ''read_email'', ''send_email'', ''delete_email'',
      ''list_repositories'', ''create_repository'', ''scan_repository'', ''push_to_repository'']"

definition bound_as_tool :: "(string \<times> binding) list \<Rightarrow> string \<Rightarrow> bool" where
  "bound_as_tool ns n = (case map_of ns n of Some (Attr m a) \<Rightarrow> a = n | _ \<Rightarrow> False)"

section \<open>Concrete environments\<close>

text \<open>
  A multipart message with an HTML part and a plain-text part, a message with a top-level
  body only, and a message whose payload carries both a part list without plain text and
  top-level body data.
\<close>

definition msg1 :: json where
  "msg1 = JObj
     [(''id'', JStr ''m1''),
      (''threadId'', JStr ''t1''),
      (''snippet'', JStr ''hi''),
      (''payload'', JObj
         [(''headers'', JList
             [JObj [(''name'', JStr ''From''), (''value'', JStr ''ann@example.com'')],
              JObj [(''name'', JStr ''SUBJECT''), (''value'', JStr ''Greetings'')]]),
          (''parts'', JList
             [JObj [(''mimeType'', JStr ''text/html''),
                    (''body'', JObj [(''data'', JStr ''PGI-aGk8L2I-'')])],
              JObj [(''mimeType'', JStr ''text/plain''),
                    (''body'', JObj [(''data'', JStr ''aGk='')])]])])]"

definition msg2 :: json where
  "msg2 = JObj
     [(''id'', JStr ''m2''),
      (''snippet'', JStr ''hello''),
      (''payload'', JObj
         [(''headers'', JList
             [JObj [(''name'', JStr ''To''), (''value'', JStr ''bob@example.com'')]]),
          (''body'', JObj [(''data'', JStr ''aGVsbG8='')])])]"

definition msg3 :: json where
  "msg3 = JObj
     [(''id'', JStr ''m3''),
      (''payload'', JObj
         [(''parts'', JList
             [JObj [(''mimeType'', JStr ''text/html''),
                    (''body'', JObj [(''data'', JStr ''PGI-aGk8L2I-'')])]]),
          (''body'', JObj [(''data'', JStr ''aGk='')])])]"

fun example_gmail :: "effect list \<Rightarrow> effect \<Rightarrow> raised + json" where
  "example_gmail tr (GmailList u q n) =
     Inr (JObj [(''messages'', JList [JObj [(''id'', JStr ''m1'')], JObj [(''id'', JStr ''m2'')]])])"
| "example_gmail tr (GmailGet u i f) =
     (if i = JStr ''m1'' then Inr msg1
      else if i = JStr ''m2'' then Inr msg2
      else Inl (Exc (PyExn ''HttpError'' ''Requested entity was not found.'')))"
| "example_gmail tr (GmailGetProfile u) = Inr (JObj [(''emailAddress'', JStr ''me@example.com'')])"
| "example_gmail tr (GmailSend u m) = Inr (JObj [(''id'', JStr ''s1'')])"
| "example_gmail tr (GmailTrash u i) = Inr (JObj [(''id'', JStr i)])"
| "example_gmail tr (GmailDelete u i) = Inr (JStr [])"
| "example_gmail tr r = Inl (Exc (PyExn ''HttpError'' ''not a Gmail request''))"

definition reply :: "int \<Rightarrow> string \<Rightarrow> json \<Rightarrow> raised + http_response" where
  "reply code body j = Inr \<lparr>status_code = code, text_of = body, json_result = Inr j\<rparr>"

text \<open>
  A GitHub that knows the repository \<^verbatim>\<open>o/r\<close> with a file \<^verbatim>\<open>old.txt\<close>; for
  \<^verbatim>\<open>odd.txt\<close> it answers 200 with an object that has no \<^verbatim>\<open>sha\<close>.
\<close>

fun example_http :: "effect list \<Rightarrow> effect \<Rightarrow> raised + http_response" where
  "example_http tr (HttpReq GET url hdrs b) =
     (if url = ''https://api.github.com/user/repos'' then
        reply 200 ''[...]'' (JList [JObj [(''id'', JInt 7), (''name'', JStr ''r'')]])
      else if url = ''https://api.github.com/repos/o/r/contents'' then
        reply 200 ''[...]'' (JList [JObj [(''name'', JStr ''old.txt''), (''type'', JStr ''file'')]])
      else if url = ''https://api.github.com/repos/o/r/contents/old.txt'' then
        reply 200 ''{...}'' (JObj [(''name'', JStr ''old.txt''), (''sha'', JStr ''abc'')])
      else if url = ''https://api.github.com/repos/o/r/contents/odd.txt'' then
        reply 200 ''{...}'' (JObj [(''name'', JStr ''odd.txt'')])
      else reply 404 ''Not Found'' (JObj [(''message'', JStr ''Not Found'')]))"
| "example_http tr (HttpReq POST url hdrs b) =
     reply 201 ''{...}'' (JObj [(''id'', JInt 8), (''name'', JStr ''new'')])"
| "example_http tr (HttpReq PUT url hdrs b) =
     reply 201 ''{...}'' (JObj [(''commit'', JObj [(''sha'', JStr ''c1'')])])"
| "example_http tr r = Inl (Exc (PyExn ''ConnectionError'' ''not an HTTP request''))"

definition no_oauth :: "effect list \<Rightarrow> effect \<Rightarrow> raised option" where
  "no_oauth tr r = None"

definition example_mime :: "json \<Rightarrow> string \<Rightarrow> string \<Rightarrow> string \<Rightarrow> bool \<Rightarrow> pyexn + string" where
  "example_mime sender to subject body is_html = Inr (''To: '' @ to)"

text \<open>Both credentials in place and both services answering.\<close>

definition world_ok :: world where
  "world_ok =
     \<lparr>gmail_token_file = Some (Inr \<lparr>valid = True, expired = False, refresh_token = JStr ''r''\<rparr>),
      credentials_json_exists = True,
      flow_from_client_secrets = None,
      save_token = None,
      build_gmail = None,
      oauth_exchange = no_oauth,
      gmail_execute = example_gmail,
      http_send = example_http,
      github_token_file = Some (Inr (JObj [(''username'', JStr ''u''), (''token'', JStr ''t'')])),
      decode_b64_utf8 = urlsafe_b64decode_utf8,
      encode_utf8 = strict_utf8_encode,
      mime_as_bytes = example_mime\<rparr>"

text \<open>No token file and no \<^verbatim>\<open>credentials.json\<close>: neither service authenticates.\<close>

definition world_noauth :: world where
  "world_noauth =
     world_ok\<lparr>gmail_token_file := None, credentials_json_exists := False,
              github_token_file := None\<rparr>"

text \<open>Both services fail: Gmail raises, GitHub answers 500.\<close>

definition world_down :: world where
  "world_down =
     world_ok\<lparr>gmail_execute := (\<lambda>tr r. Inl (Exc (PyExn ''HttpError'' ''Backend Error''))),
              http_send := (\<lambda>tr r. Inr \<lparr>status_code = 500, text_of = ''Server Error'',
                                         json_result = Inl (PyExn ''JSONDecodeError'' ''Expecting value'')\<rparr>)\<rparr>"

definition ok_headers :: headers where
  "ok_headers =
     [(''Accept'', Lit ''application/vnd.github.v3+json''), (''Authorization'', TokenFmt (JStr ''t''))]"

section \<open>Notions used in the properties\<close>

text \<open>Every normal return of a computation satisfies \<open>P\<close>.\<close>

definition returns :: "('a \<Rightarrow> bool) \<Rightarrow> 'a io \<Rightarrow> bool" where
  "returns P m = (\<forall>tr x tr'. m tr = (Inr x, tr') \<longrightarrow> P x)"

text \<open>
  A dictionary with a \<^verbatim>\<open>status\<close> that is \<^verbatim>\<open>"success"\<close> or \<^verbatim>\<open>"error"\<close> and a
  \<^verbatim>\<open>message\<close> that is a string.
\<close>

definition status_message_dict :: "json \<Rightarrow> bool" where
  "status_message_dict d =
     (case d of
        JObj kvs \<Rightarrow>
          (map_of kvs ''status'' = Some (JStr ''success'')
           \<or> map_of kvs ''status'' = Some (JStr ''error''))
          \<and> (case map_of kvs ''message'' of Some (JStr m) \<Rightarrow> True | _ \<Rightarrow> False)
      | _ \<Rightarrow> False)"

text \<open>
  A tool guards its body, from the requests \<open>tr\<close> on: when the body raises an exception
  \<open>e\<close> derived from \<^verbatim>\<open>Exception\<close>, the tool returns the dictionary with status
  \<^verbatim>\<open>"error"\<close>, the message \<open>prefix\<close> followed by \<^verbatim>\<open>str(e)\<close>, and the entries \<open>extra\<close>;
  when the body raises an exception of the other kind, so does the tool; when the body
  returns, the tool returns the same, a status dictionary.
\<close>

definition guarded ::
    "json io \<Rightarrow> json io \<Rightarrow> string \<Rightarrow> (string \<times> json) list \<Rightarrow> effect list \<Rightarrow> bool" where
  "guarded tool body prefix extra tr =
     (case body tr of
        (Inl (Exc e), tr') \<Rightarrow>
          tool tr =
            (Inr (JObj ([(''status'', JStr ''error''), (''message'', JStr (prefix @ exn_str e))]
                        @ extra)), tr')
      | (Inl (Base b), tr') \<Rightarrow> tool tr = (Inl (Base b), tr')
      | (Inr d, tr') \<Rightarrow> tool tr = (Inr d, tr') \<and> status_message_dict d)"

text \<open>The request that the loop of \<^verbatim>\<open>list_emails\<close> issues for a listed entry.\<close>

definition get_request :: "json \<Rightarrow> effect" where
  "get_request msg =
     GmailGet ''me'' (case subscript msg ''id'' of Inr i \<Rightarrow> i | Inl e \<Rightarrow> JNull) ''full''"

text \<open>The one request of \<^verbatim>\<open>delete_email\<close>, chosen by the flag.\<close>

definition delete_request :: "string \<Rightarrow> bool \<Rightarrow> effect" where
  "delete_request email_id trash =
     (if trash then GmailTrash ''me'' email_id else GmailDelete ''me'' email_id)"

text \<open>Authentication with Gmail gave a service object.\<close>

definition gmail_ready :: "world \<Rightarrow> bool" where
  "gmail_ready w = (result_of (get_gmail_service w) = Inr (Some GmailService))"

text \<open>
  A dictionary that binds the key \<open>k\<close> to a list, the empty one when its status is
  \<^verbatim>\<open>"error"\<close>; and an invocation that returns such a dictionary, which only an exception
  not derived from \<^verbatim>\<open>Exception\<close> keeps from returning.
\<close>

definition collection_dict :: "string \<Rightarrow> json \<Rightarrow> bool" where
  "collection_dict k d =
     (case d of
        JObj kvs \<Rightarrow>
          (case map_of kvs k of
             Some (JList xs) \<Rightarrow> map_of kvs ''status'' = Some (JStr ''error'') \<longrightarrow> xs = []
           | _ \<Rightarrow> False)
      | _ \<Rightarrow> False)"

definition keeps_collection :: "string \<Rightarrow> json io \<Rightarrow> bool" where
  "keeps_collection k m =
     (case result_of m of
        Inr d \<Rightarrow> collection_dict k d
      | Inl (Exc e) \<Rightarrow> False
      | Inl (Base b) \<Rightarrow> True)"

text \<open>
  What \<^verbatim>\<open>push_to_repository\<close> does between the answer to its GET and its PUT: it reads
  the \<^verbatim>\<open>sha\<close>, encodes the content and assembles the request body; each of the first
  two steps may raise.
\<close>

definition prepare_put :: "world \<Rightarrow> http_response \<Rightarrow> string \<Rightarrow> string \<Rightarrow> pyexn + json" where
  "prepare_put w response content commit_message =
     bind_exn (existing_sha response) (\<lambda>sha.
     bind_exn (encode_utf8 w content) (\<lambda>encoded.
     Inr (put_data commit_message encoded sha)))"


text \<open>
  The entries that the answer to the list request of \<^verbatim>\<open>list_emails\<close> names, in its
  order: none when the request raises, when the answer is not a dictionary, or when its
  \<^verbatim>\<open>messages\<close> are missing, falsy or cannot be iterated.
\<close>

definition listed_entries :: "world \<Rightarrow> int \<Rightarrow> string \<Rightarrow> string \<Rightarrow> json list" where
  "listed_entries w max_results query label =
     (case bind_raised
             (gmail_execute w (trace_of (get_gmail_service w))
                (GmailList ''me'' (search_query label query) max_results))
             (\<lambda>results. lift_exn (dict_get results ''messages'' (JList []))) of
        Inr messages \<Rightarrow>
          (if truthy messages then (case py_iter messages of Inr msgs \<Rightarrow> msgs | Inl e \<Rightarrow> [])
           else [])
      | Inl e \<Rightarrow> [])"



text \<open>The user interrupts every request.\<close>

definition world_interrupted :: world where
  "world_interrupted =
     world_ok\<lparr>gmail_execute := (\<lambda>tr r. Inl (Base ''KeyboardInterrupt'')),
              http_send := (\<lambda>tr r. Inl (Base ''KeyboardInterrupt''))\<rparr>"

text \<open>The two entries that \<open>world_ok\<close> lists and what \<^verbatim>\<open>format_message\<close> makes of them.\<close>

definition listed :: "json list" where
  "listed = [JObj [(''id'', JStr ''m1'')], JObj [(''id'', JStr ''m2'')]]"

definition email1 :: json where
  "email1 = JObj
     [(''id'', JStr ''m1''), (''thread_id'', JStr ''t1''), (''from'', JStr ''ann@example.com''),
      (''to'', JStr ''Unknown''), (''subject'', JStr ''Greetings''), (''date'', JStr ''Unknown''),
      (''snippet'', JStr ''hi''), (''body'', JStr ''hi'')]"


section \<open>What \<^verbatim>\<open>format_message\<close> is claimed to return\<close>

text \<open>
  The definitions of this section follow the words of the claim about
  \<^verbatim>\<open>format_message\<close>, not the code: they say which value each key of the result holds.
\<close>

definition field :: "json \<Rightarrow> string \<Rightarrow> json option" where
  "field x k = (case x of JObj kvs \<Rightarrow> map_of kvs k | _ \<Rightarrow> None)"

definition field_or :: "json \<Rightarrow> string \<Rightarrow> json \<Rightarrow> json" where
  "field_or x k d = (case field x k of Some v \<Rightarrow> v | None \<Rightarrow> d)"

definition items_of :: "json option \<Rightarrow> json list" where
  "items_of v = (case v of Some (JList xs) \<Rightarrow> xs | _ \<Rightarrow> [])"

text \<open>A header is looked up by its name in lower case; of several, the last one counts.\<close>

definition named :: "string \<Rightarrow> json \<Rightarrow> bool" where
  "named k header =
     (case field header ''name'' of Some (JStr n) \<Rightarrow> map lower_char n = k | _ \<Rightarrow> False)"

definition header_ci :: "json list \<Rightarrow> string \<Rightarrow> string \<Rightarrow> json" where
  "header_ci headers k d =
     (case find (named k) (rev headers) of
        Some header \<Rightarrow> field_or header ''value'' (JStr d)
      | None \<Rightarrow> JStr d)"

definition is_plain :: "json \<Rightarrow> bool" where
  "is_plain part = (field part ''mimeType'' = Some (JStr ''text/plain''))"

text \<open>The \<^verbatim>\<open>body.data\<close> of a part or of the payload.\<close>

definition body_data :: "json \<Rightarrow> json option" where
  "body_data part = (case field part ''body'' of Some b \<Rightarrow> field b ''data'' | None \<Rightarrow> None)"

text \<open>The decoded data, or the notice when there is none to decode or decoding raises.\<close>

definition decoded :: "world \<Rightarrow> json option \<Rightarrow> string" where
  "decoded w d =
     (case d of
        None \<Rightarrow> ''[Could not decode message body]''
      | Some v \<Rightarrow>
          (case decode_data w v of
             Inl e \<Rightarrow> ''[Could not decode message body]''
           | Inr s \<Rightarrow> s))"

text \<open>
  The body as the claim words it: the first plain-text part, otherwise the top-level body
  data, otherwise the empty string.
\<close>

definition claimed_body :: "world \<Rightarrow> json \<Rightarrow> string" where
  "claimed_body w payload =
     (case find is_plain (items_of (field payload ''parts'')) of
        Some part \<Rightarrow> decoded w (body_data part)
      | None \<Rightarrow>
          (case body_data payload of
             Some d \<Rightarrow> decoded w (Some d)
           | None \<Rightarrow> []))"

text \<open>
  The body as amended: the top-level body data is consulted only when the payload has no
  \<^verbatim>\<open>parts\<close> key at all.
\<close>

definition amended_body :: "world \<Rightarrow> json \<Rightarrow> string" where
  "amended_body w payload =
     (case field payload ''parts'' of
        Some parts \<Rightarrow>
          (case find is_plain (items_of (Some parts)) of
             Some part \<Rightarrow> decoded w (body_data part)
           | None \<Rightarrow> [])
      | None \<Rightarrow>
          (case body_data payload of
             Some d \<Rightarrow> decoded w (Some d)
           | None \<Rightarrow> []))"

definition formatted :: "world \<Rightarrow> (world \<Rightarrow> json \<Rightarrow> string) \<Rightarrow> json \<Rightarrow> json" where
  "formatted w body_of message =
     (let payload = field_or message ''payload'' (JObj []);
          headers = items_of (field payload ''headers'')
      in JObj
        [(''id'', field_or message ''id'' (JStr [])),
         (''thread_id'', field_or message ''threadId'' (JStr [])),
         (''from'', header_ci headers ''from'' ''Unknown''),
         (''to'', header_ci headers ''to'' ''Unknown''),
         (''subject'', header_ci headers ''subject'' ''(No Subject)''),
         (''date'', header_ci headers ''date'' ''Unknown''),
         (''snippet'', field_or message ''snippet'' (JStr [])),
         (''body'', JStr (body_of w payload))])"

text \<open>
  A message object as the Gmail API documents it: an object whose payload, if any, is an
  object; its headers, if any, a list of objects with a string \<^verbatim>\<open>name\<close> and a
  \<^verbatim>\<open>value\<close>; its parts, if any, a list of objects with a \<^verbatim>\<open>mimeType\<close>; its body, if any,
  an object.
\<close>

definition wf_header :: "json \<Rightarrow> bool" where
  "wf_header h =
     (case field h ''name'' of Some (JStr n) \<Rightarrow> field h ''value'' \<noteq> None | _ \<Rightarrow> False)"

definition wf_part :: "json \<Rightarrow> bool" where
  "wf_part part = (field part ''mimeType'' \<noteq> None)"

definition wf_payload :: "json \<Rightarrow> bool" where
  "wf_payload p =
     (case p of
        JObj kvs \<Rightarrow>
          (case map_of kvs ''headers'' of
             None \<Rightarrow> True
           | Some (JList hs) \<Rightarrow> list_all wf_header hs
           | _ \<Rightarrow> False)
          \<and> (case map_of kvs ''parts'' of
               None \<Rightarrow> (case map_of kvs ''body'' of None \<Rightarrow> True | Some (JObj b) \<Rightarrow> True | _ \<Rightarrow> False)
             | Some (JList ps) \<Rightarrow> list_all wf_part ps
             | _ \<Rightarrow> False)
      | _ \<Rightarrow> False)"

definition wf_message :: "json \<Rightarrow> bool" where
  "wf_message m =
     (case m of
        JObj kvs \<Rightarrow> (case map_of kvs ''payload'' of None \<Rightarrow> True | Some p \<Rightarrow> wf_payload p)
      | _ \<Rightarrow> False)"

text \<open>
  Every submodule that the initialiser imports from can be imported and defines the names
  imported from it.
\<close>

definition importable :: "modules \<Rightarrow> bool" where
  "importable ms =
     list_all
       (\<lambda>(m, names). case ms m of Inr defined \<Rightarrow> list_all (\<lambda>n. n \<in> set defined) names
                                  | Inl e \<Rightarrow> False)
       init_imports"

section \<open>Normal returns and the handler\<close>

lemmas list_emails_unfold = list_emails_def list_emails_body_def list_emails_handler_def
lemmas read_email_unfold = read_email_def read_email_body_def read_email_handler_def
lemmas send_email_unfold = send_email_def send_email_body_def send_email_handler_def
lemmas delete_email_unfold = delete_email_def delete_email_body_def delete_email_handler_def
lemmas list_repositories_unfold =
  list_repositories_def list_repositories_body_def list_repositories_handler_def
lemmas create_repository_unfold =
  create_repository_def create_repository_body_def create_repository_handler_def
lemmas scan_repository_unfold =
  scan_repository_def scan_repository_body_def scan_repository_handler_def
lemmas push_to_repository_unfold =
  push_to_repository_def push_to_repository_body_def push_to_repository_handler_def

lemma returns_return: "P x \<Longrightarrow> returns P (return_io x)"
  by (simp add: returns_def return_io_def)

lemma returns_bind: "(\<And>x. returns P (f x)) \<Longrightarrow> returns P (bind_io m f)"
  by (auto simp: returns_def bind_io_def split: prod.splits sum.splits)

lemma returns_if:
  "(c \<Longrightarrow> returns P a) \<Longrightarrow> (\<not> c \<Longrightarrow> returns P b) \<Longrightarrow> returns P (if c then a else b)"
  by simp

lemma returns_option:
  "returns P a \<Longrightarrow> (\<And>y. returns P (f y)) \<Longrightarrow> returns P (case x of None \<Rightarrow> a | Some y \<Rightarrow> f y)"
  by (cases x) simp_all

lemmas returns_intros = returns_bind returns_if returns_option returns_return

text \<open>
  A body all of whose normal returns are status dictionaries is guarded by the
  \<^verbatim>\<open>try\<close> block whose handler builds the error dictionary.
\<close>

lemma try_except_guarded:
  assumes "returns status_message_dict body"
    and "\<And>e. handler e =
           JObj ([(''status'', JStr ''error''), (''message'', JStr (prefix @ exn_str e))] @ extra)"
  shows "guarded (try_except body handler) body prefix extra tr"
proof (cases "body tr")
  case (Pair r tr')
  show ?thesis
  proof (cases r)
    case (Inl x)
    with Pair assms(2) show ?thesis
      by (cases x) (simp_all add: guarded_def try_except_def)
  next
    case (Inr d)
    with Pair assms(1) have "status_message_dict d"
      by (auto simp: returns_def)
    with Pair Inr show ?thesis
      by (simp add: guarded_def try_except_def)
  qed
qed

lemma guarded_never_raises:
  assumes "guarded tool body prefix extra tr"
  shows "fst (tool tr) \<noteq> Inl (Exc e)"
proof (cases "body tr")
  case (Pair r tr')
  show ?thesis
  proof (cases r)
    case (Inl x)
    with Pair assms show ?thesis
      by (cases x) (simp_all add: guarded_def)
  next
    case (Inr d)
    with Pair assms show ?thesis
      by (simp add: guarded_def)
  qed
qed

lemma list_emails_guarded:
  "guarded (list_emails w n q l) (list_emails_body w n q l)
     ''Error listing emails: '' [(''emails'', JList [])] tr"
  unfolding list_emails_def list_emails_body_def
  by (intro try_except_guarded returns_intros)
    (simp_all add: status_message_dict_def list_emails_handler_def)

lemma read_email_guarded:
  "guarded (read_email w i) (read_email_body w i) ''Error reading email: '' [] tr"
  unfolding read_email_def read_email_body_def
  by (intro try_except_guarded returns_intros)
    (simp_all add: status_message_dict_def read_email_handler_def)

lemma send_email_guarded:
  "guarded (send_email w t s b h) (send_email_body w t s b h) ''Error sending email: '' [] tr"
  unfolding send_email_def send_email_body_def
  by (intro try_except_guarded returns_intros)
    (simp_all add: status_message_dict_def send_email_handler_def)

lemma delete_email_guarded:
  "guarded (delete_email w i t) (delete_email_body w i t) ''Error deleting email: '' [] tr"
  unfolding delete_email_def delete_email_body_def
  by (intro try_except_guarded returns_intros)
    (simp_all add: status_message_dict_def delete_email_handler_def)

lemma list_repositories_guarded:
  "guarded (list_repositories w) (list_repositories_body w)
     ''Error listing repositories: '' [(''repositories'', JList [])] tr"
  unfolding list_repositories_def list_repositories_body_def
  by (intro try_except_guarded returns_intros)
    (simp_all add: status_message_dict_def list_repositories_handler_def)

lemma create_repository_guarded:
  "guarded (create_repository w n d p) (create_repository_body w n d p)
     ''Error creating repository: '' [] tr"
  unfolding create_repository_def create_repository_body_def
  by (intro try_except_guarded returns_intros)
    (simp_all add: status_message_dict_def create_repository_handler_def)

lemma scan_repository_guarded:
  "guarded (scan_repository w r p) (scan_repository_body w r p)
     ''Error scanning repository: '' [(''contents'', JList [])] tr"
  unfolding scan_repository_def scan_repository_body_def
  by (intro try_except_guarded returns_intros)
    (simp_all add: status_message_dict_def scan_repository_handler_def)

lemma push_to_repository_guarded:
  "guarded (push_to_repository w r f c m) (push_to_repository_body w r f c m)
     ''Error pushing to repository: '' [] tr"
  unfolding push_to_repository_def push_to_repository_body_def
  by (intro try_except_guarded returns_intros)
    (simp_all add: status_message_dict_def push_to_repository_handler_def)

text \<open>
  Claim C1, as amended.  In every environment and for every argument, each of the eight
  tool functions guards its body: whenever the body raises an exception derived from
  \<^verbatim>\<open>Exception\<close>, the function returns the dictionary with status \<^verbatim>\<open>"error"\<close> and the
  message made of the function's prefix and \<^verbatim>\<open>str(e)\<close> (with the empty collection for the
  three listing tools); whenever the body returns, the function returns the same
  dictionary, whose \<^verbatim>\<open>status\<close> is \<^verbatim>\<open>"success"\<close> or \<^verbatim>\<open>"error"\<close> and whose
  \<^verbatim>\<open>message\<close> is a string.  So no exception derived from \<^verbatim>\<open>Exception\<close> ever reaches
  the caller.  An exception that is not derived from \<^verbatim>\<open>Exception\<close>
  (\<^verbatim>\<open>KeyboardInterrupt\<close>, \<^verbatim>\<open>SystemExit\<close>) is not caught and reaches the caller.
\<close>

theorem tools_guard_their_bodies:
  "guarded (list_emails w max_results query label) (list_emails_body w max_results query label)
     ''Error listing emails: '' [(''emails'', JList [])] tr
   \<and> guarded (read_email w email_id) (read_email_body w email_id)
       ''Error reading email: '' [] tr
   \<and> guarded (send_email w to subject body is_html) (send_email_body w to subject body is_html)
       ''Error sending email: '' [] tr
   \<and> guarded (delete_email w email_id' trash) (delete_email_body w email_id' trash)
       ''Error deleting email: '' [] tr
   \<and> guarded (list_repositories w) (list_repositories_body w)
       ''Error listing repositories: '' [(''repositories'', JList [])] tr
   \<and> guarded (create_repository w name description private)
       (create_repository_body w name description private)
       ''Error creating repository: '' [] tr
   \<and> guarded (scan_repository w repo_name path) (scan_repository_body w repo_name path)
       ''Error scanning repository: '' [(''contents'', JList [])] tr
   \<and> guarded (push_to_repository w repo_name' file_path content commit_message)
       (push_to_repository_body w repo_name' file_path content commit_message)
       ''Error pushing to repository: '' [] tr
   \<and> fst (list_emails w max_results query label tr) \<noteq> Inl (Exc e)
   \<and> fst (read_email w email_id tr) \<noteq> Inl (Exc e)
   \<and> fst (send_email w to subject body is_html tr) \<noteq> Inl (Exc e)
   \<and> fst (delete_email w email_id' trash tr) \<noteq> Inl (Exc e)
   \<and> fst (list_repositories w tr) \<noteq> Inl (Exc e)
   \<and> fst (create_repository w name description private tr) \<noteq> Inl (Exc e)
   \<and> fst (scan_repository w repo_name path tr) \<noteq> Inl (Exc e)
   \<and> fst (push_to_repository w repo_name' file_path content commit_message tr) \<noteq> Inl (Exc e)"
  by (simp add: list_emails_guarded read_email_guarded send_email_guarded delete_email_guarded
      list_repositories_guarded create_repository_guarded scan_repository_guarded
      push_to_repository_guarded
      guarded_never_raises [OF list_emails_guarded] guarded_never_raises [OF read_email_guarded]
      guarded_never_raises [OF send_email_guarded] guarded_never_raises [OF delete_email_guarded]
      guarded_never_raises [OF list_repositories_guarded]
      guarded_never_raises [OF create_repository_guarded]
      guarded_never_raises [OF scan_repository_guarded]
      guarded_never_raises [OF push_to_repository_guarded])

lemma down_list_emails_body:
  "list_emails_body world_down 10 [] ''INBOX'' [] =
     (Inl (Exc (PyExn ''HttpError'' ''Backend Error'')), [GmailList ''me'' ''label:INBOX'' 10])"
  by code_simp

lemma down_list_repositories_body:
  "list_repositories_body world_down [] =
     (Inr (JObj [(''status'', JStr ''error''),
                 (''message'', JStr ''GitHub API error: 500 - Server Error''),
                 (''repositories'', JList [])]),
      [HttpReq GET ''https://api.github.com/user/repos'' ok_headers None])"
  by code_simp

lemma interrupted_read_email_body:
  "read_email_body world_interrupted ''m1'' [] =
     (Inl (Base ''KeyboardInterrupt''), [GmailGet ''me'' (JStr ''m1'') ''full''])"
  by code_simp

theorem tools_guard_their_bodies_witness:
  "list_emails world_down 10 [] ''INBOX'' [] =
     (Inr (JObj [(''status'', JStr ''error''),
                 (''message'', JStr ''Error listing emails: Backend Error''),
                 (''emails'', JList [])]),
      [GmailList ''me'' ''label:INBOX'' 10])
   \<and> list_repositories world_down [] =
     (Inr (JObj [(''status'', JStr ''error''),
                 (''message'', JStr ''GitHub API error: 500 - Server Error''),
                 (''repositories'', JList [])]),
      [HttpReq GET ''https://api.github.com/user/repos'' ok_headers None])
   \<and> read_email world_interrupted ''m1'' [] =
     (Inl (Base ''KeyboardInterrupt''), [GmailGet ''me'' (JStr ''m1'') ''full''])"
  using tools_guard_their_bodies [where w = world_down and tr = "[]" and max_results = 10
      and query = "[]" and label = "''INBOX''"]
    tools_guard_their_bodies [where w = world_interrupted and tr = "[]" and email_id = "''m1''"]
    down_list_emails_body down_list_repositories_body interrupted_read_email_body
  by (simp add: guarded_def)

text \<open>
  The claim as stated, that no exception ever reaches the caller, fails: when the user
  interrupts the request, \<^verbatim>\<open>read_email\<close> raises \<^verbatim>\<open>KeyboardInterrupt\<close>, which
  \<^verbatim>\<open>except Exception\<close> does not catch.
\<close>

theorem interrupt_counterexample:
  "result_of (read_email world_interrupted ''m1'') = Inl (Base ''KeyboardInterrupt'')"
  by code_simp

section \<open>Authentication\<close>

lemma build_service_trace: "build_service w tr = (r, tr') \<Longrightarrow> tr' = tr \<and> r \<noteq> Inr None"
  by (auto simp: build_service_def bind_io_def raise_opt_def lift_io_def lift_exn_def return_io_def
      split: option.splits)

lemma save_and_build_trace: "save_and_build w tr = (r, tr') \<Longrightarrow> tr' = tr \<and> r \<noteq> Inr None"
  by (auto simp: save_and_build_def bind_io_def raise_opt_def lift_io_def lift_exn_def
      dest: build_service_trace split: option.splits)

lemma run_flow_trace:
  "run_flow w tr = (r, tr') \<Longrightarrow>
     (tr' = tr \<or> tr' = tr @ [OAuthLocalServer]) \<and> (r = Inr None \<longrightarrow> tr' = tr)"
  by (auto simp: run_flow_def bind_io_def raise_opt_def lift_io_def lift_exn_def return_io_def oauth_call_def
      dest: save_and_build_trace split: option.splits if_splits)

lemma get_gmail_service_trace:
  "get_gmail_service w tr = (r, tr') \<Longrightarrow>
     (tr' = tr \<or> tr' = tr @ [OAuthLocalServer] \<or> tr' = tr @ [OAuthRefresh])
     \<and> (r = Inr None \<longrightarrow> tr' = tr)"
  by (auto simp: get_gmail_service_def bind_io_def lift_io_def lift_exn_def return_io_def oauth_call_def
      dest: save_and_build_trace build_service_trace run_flow_trace
      split: option.splits if_splits sum.splits)

text \<open>The three outcomes of authenticating with Gmail at the start of an invocation.\<close>

lemma gmail_auth_cases [case_names Raised No_Service Service]:
  obtains
    e tr0 where "get_gmail_service w [] = (Inl e, tr0)" and "api_requests tr0 = []"
      and "distinct tr0"
  | "get_gmail_service w [] = (Inr None, [])"
  | tr0 where "get_gmail_service w [] = (Inr (Some GmailService), tr0)"
      and "api_requests tr0 = []" and "distinct tr0"
proof (cases "get_gmail_service w []")
  case (Pair r tr0)
  from get_gmail_service_trace [OF Pair]
  have tr0: "tr0 = [] \<or> tr0 = [OAuthLocalServer] \<or> tr0 = [OAuthRefresh]"
    and none: "r = Inr None \<longrightarrow> tr0 = []"
    by simp_all
  from tr0 have api: "api_requests tr0 = []" and dist: "distinct tr0"
    by (auto simp: api_requests_def)
  show ?thesis
  proof (cases r)
    case (Inl e)
    with Pair api dist that(1) show ?thesis by simp
  next
    case (Inr s)
    show ?thesis
    proof (cases s)
      case None
      with Inr Pair none that(2) show ?thesis by simp
    next
      case (Some sv)
      have "sv = GmailService" by (cases sv) simp
      with Some Inr Pair api dist that(3) show ?thesis by simp
    qed
  qed
qed

lemma list_emails_no_service:
  "get_gmail_service w [] = (Inr None, tr0) \<Longrightarrow>
     list_emails w n q l [] =
       (Inr (JObj [(''status'', JStr ''error''), (''message'', JStr gmail_auth_message),
                   (''emails'', JList [])]), tr0)"
  by (simp add: list_emails_unfold try_except_def bind_io_def return_io_def)

lemma read_email_no_service:
  "get_gmail_service w [] = (Inr None, tr0) \<Longrightarrow>
     read_email w i [] =
       (Inr (JObj [(''status'', JStr ''error''), (''message'', JStr gmail_auth_message)]), tr0)"
  by (simp add: read_email_unfold try_except_def bind_io_def return_io_def)

lemma send_email_no_service:
  "get_gmail_service w [] = (Inr None, tr0) \<Longrightarrow>
     send_email w t s b h [] =
       (Inr (JObj [(''status'', JStr ''error''), (''message'', JStr gmail_auth_message)]), tr0)"
  by (simp add: send_email_unfold try_except_def bind_io_def return_io_def)

lemma delete_email_no_service:
  "get_gmail_service w [] = (Inr None, tr0) \<Longrightarrow>
     delete_email w i t [] =
       (Inr (JObj [(''status'', JStr ''error''), (''message'', JStr gmail_auth_message)]), tr0)"
  by (simp add: delete_email_unfold try_except_def bind_io_def return_io_def)

lemma list_repositories_no_headers:
  "get_github_headers w = None \<Longrightarrow>
     list_repositories w [] =
       (Inr (JObj [(''status'', JStr ''error''), (''message'', JStr github_auth_message),
                   (''repositories'', JList [])]), [])"
  by (simp add: list_repositories_unfold try_except_def return_io_def)

lemma create_repository_no_headers:
  "get_github_headers w = None \<Longrightarrow>
     create_repository w n d p [] =
       (Inr (JObj [(''status'', JStr ''error''), (''message'', JStr github_auth_message)]), [])"
  by (simp add: create_repository_unfold try_except_def return_io_def)

lemma scan_repository_no_headers:
  "get_github_headers w = None \<Longrightarrow>
     scan_repository w r p [] =
       (Inr (JObj [(''status'', JStr ''error''), (''message'', JStr github_auth_message),
                   (''contents'', JList [])]), [])"
  by (simp add: scan_repository_unfold try_except_def return_io_def)

lemma push_to_repository_no_headers:
  "get_github_headers w = None \<Longrightarrow>
     push_to_repository w r f c m [] =
       (Inr (JObj [(''status'', JStr ''error''), (''message'', JStr github_auth_message)]), [])"
  by (simp add: push_to_repository_unfold try_except_def return_io_def)

lemma no_service_no_trace:
  assumes "result_of (get_gmail_service w) = Inr None"
  shows "get_gmail_service w [] = (Inr None, [])"
  using assms by (cases w rule: gmail_auth_cases) (simp_all add: result_of_def)

lemma noauth_gmail: "result_of (get_gmail_service world_noauth) = Inr None"
  by (simp add: result_of_def get_gmail_service_def world_noauth_def world_ok_def run_flow_def
      bind_io_def return_io_def)

lemma noauth_github: "get_github_headers world_noauth = None"
  by (simp add: get_github_headers_def get_github_auth_def world_noauth_def world_ok_def)

text \<open>
  Claim C6.  When loading the credentials fails, that is when \<^verbatim>\<open>get_gmail_service\<close>
  returns \<^verbatim>\<open>None\<close>, respectively when \<^verbatim>\<open>get_github_headers\<close> does, each tool function
  returns the error dictionary whose message says that authentication failed, and the
  invocation has issued no request at all, neither to the API nor to the OAuth endpoints.
\<close>

theorem auth_failure_no_request:
  "(result_of (get_gmail_service w) = Inr None \<longrightarrow>
      list_emails w max_results query label [] =
        (Inr (JObj [(''status'', JStr ''error''), (''message'', JStr gmail_auth_message),
                    (''emails'', JList [])]), [])
      \<and> read_email w email_id [] =
        (Inr (JObj [(''status'', JStr ''error''), (''message'', JStr gmail_auth_message)]), [])
      \<and> send_email w to subject body is_html [] =
        (Inr (JObj [(''status'', JStr ''error''), (''message'', JStr gmail_auth_message)]), [])
      \<and> delete_email w email_id' trash [] =
        (Inr (JObj [(''status'', JStr ''error''), (''message'', JStr gmail_auth_message)]), []))
   \<and> (get_github_headers w = None \<longrightarrow>
      list_repositories w [] =
        (Inr (JObj [(''status'', JStr ''error''), (''message'', JStr github_auth_message),
                    (''repositories'', JList [])]), [])
      \<and> create_repository w name description private [] =
        (Inr (JObj [(''status'', JStr ''error''), (''message'', JStr github_auth_message)]), [])
      \<and> scan_repository w repo_name path [] =
        (Inr (JObj [(''status'', JStr ''error''), (''message'', JStr github_auth_message),
                    (''contents'', JList [])]), [])
      \<and> push_to_repository w repo_name' file_path content commit_message [] =
        (Inr (JObj [(''status'', JStr ''error''), (''message'', JStr github_auth_message)]), []))"
  by (simp add: no_service_no_trace list_emails_no_service read_email_no_service
      send_email_no_service delete_email_no_service list_repositories_no_headers
      create_repository_no_headers scan_repository_no_headers push_to_repository_no_headers)

theorem auth_failure_no_request_witness:
  "result_of (get_gmail_service world_noauth) = Inr None
   \<and> get_github_headers world_noauth = None
   \<and> list_emails world_noauth 10 [] ''INBOX'' [] =
        (Inr (JObj [(''status'', JStr ''error''), (''message'', JStr gmail_auth_message),
                    (''emails'', JList [])]), [])
   \<and> read_email world_noauth ''m1'' [] =
        (Inr (JObj [(''status'', JStr ''error''), (''message'', JStr gmail_auth_message)]), [])
   \<and> send_email world_noauth ''bob@example.com'' ''s'' ''b'' False [] =
        (Inr (JObj [(''status'', JStr ''error''), (''message'', JStr gmail_auth_message)]), [])
   \<and> delete_email world_noauth ''m1'' True [] =
        (Inr (JObj [(''status'', JStr ''error''), (''message'', JStr gmail_auth_message)]), [])
   \<and> list_repositories world_noauth [] =
        (Inr (JObj [(''status'', JStr ''error''), (''message'', JStr github_auth_message),
                    (''repositories'', JList [])]), [])
   \<and> create_repository world_noauth ''new'' [] False [] =
        (Inr (JObj [(''status'', JStr ''error''), (''message'', JStr github_auth_message)]), [])
   \<and> scan_repository world_noauth ''o/r'' [] [] =
        (Inr (JObj [(''status'', JStr ''error''), (''message'', JStr github_auth_message),
                    (''contents'', JList [])]), [])
   \<and> push_to_repository world_noauth ''o/r'' ''new.txt'' ''hi'' ''add'' [] =
        (Inr (JObj [(''status'', JStr ''error''), (''message'', JStr github_auth_message)]), [])"
  using auth_failure_no_request [of world_noauth 10 "[]" "''INBOX''" "''m1''"
      "''bob@example.com''" "''s''" "''b''" False "''m1''" True "''new''" "[]" False
      "''o/r''" "[]" "''o/r''" "''new.txt''" "''hi''" "''add''"]
    noauth_gmail noauth_github
  by simp

section \<open>Requests issued by the email tools\<close>

lemma gmail_ready_iff:
  "get_gmail_service w [] = (r, tr0) \<Longrightarrow> gmail_ready w = (r = Inr (Some GmailService))"
  by (simp add: gmail_ready_def result_of_def)

lemma read_email_raised:
  "get_gmail_service w [] = (Inl e, tr0) \<Longrightarrow> snd (read_email w i []) = tr0"
  by (simp add: read_email_unfold try_except_def bind_io_def split: raised.splits)

lemma read_email_service:
  "get_gmail_service w [] = (Inr (Some s), tr0) \<Longrightarrow>
     snd (read_email w i []) = tr0 @ [GmailGet ''me'' (JStr i) ''full'']"
  by (simp add: read_email_unfold try_except_def bind_io_def gmail_call_def lift_io_def lift_exn_def
      return_io_def split: sum.splits raised.splits)

lemma delete_email_raised:
  "get_gmail_service w [] = (Inl e, tr0) \<Longrightarrow> snd (delete_email w i t []) = tr0"
  by (simp add: delete_email_unfold try_except_def bind_io_def split: raised.splits)

lemma delete_email_service:
  "get_gmail_service w [] = (Inr (Some s), tr0) \<Longrightarrow>
     delete_email w i t [] =
       ((case gmail_execute w tr0 (delete_request i t) of
           Inl (Exc e) \<Rightarrow>
             Inr (JObj [(''status'', JStr ''error''),
                        (''message'', JStr (''Error deleting email: '' @ exn_str e))])
         | Inl (Base b) \<Rightarrow> Inl (Base b)
         | Inr r \<Rightarrow>
             Inr (JObj [(''status'', JStr ''success''),
                        (''message'',
                         JStr (if t then ''Email moved to trash successfully''
                               else ''Email permanently deleted successfully''))])),
        tr0 @ [delete_request i t])"
  by (simp add: delete_email_unfold delete_request_def try_except_def bind_io_def gmail_call_def
      return_io_def split: sum.splits raised.splits)

lemma send_email_raised:
  "get_gmail_service w [] = (Inl e, tr0) \<Longrightarrow> snd (send_email w t s b h []) = tr0"
  by (simp add: send_email_unfold try_except_def bind_io_def split: raised.splits)

lemma send_email_service:
  "get_gmail_service w [] = (Inr (Some sv), tr0) \<Longrightarrow>
     snd (send_email w t s b h []) = tr0 @ [GmailGetProfile ''me'']
     \<or> (\<exists>m. snd (send_email w t s b h []) = tr0 @ [GmailGetProfile ''me'', GmailSend ''me'' m])"
  by (auto simp: send_email_unfold try_except_def bind_io_def gmail_call_def lift_io_def lift_exn_def
      return_io_def split: sum.splits raised.splits)

lemma fetch_emails_trace:
  "fetch_emails w msgs acc tr = (r, tr') \<Longrightarrow>
     \<exists>k\<le>length msgs. tr' = tr @ map get_request (take k msgs)"
proof (induction msgs arbitrary: acc tr)
  case Nil
  then show ?case by (simp add: return_io_def)
next
  case (Cons msg rest)
  show ?case
  proof (cases "subscript msg ''id''")
    case (Inl e)
    with Cons.prems have "tr' = tr"
      by (simp add: bind_io_def lift_io_def lift_exn_def)
    then show ?thesis by (intro exI [of _ 0]) simp
  next
    case (Inr mid)
    then have req: "get_request msg = GmailGet ''me'' mid ''full''"
      by (simp add: get_request_def)
    show ?thesis
    proof (cases "bind_raised (gmail_execute w tr (get_request msg))
                    (\<lambda>message. lift_exn (format_message w message))")
      case (Inl e)
      with Cons.prems Inr req have "tr' = tr @ [get_request msg]"
        by (auto simp: bind_io_def lift_io_def lift_exn_def gmail_call_def bind_exn_def bind_raised_def split: sum.splits raised.splits)
      then show ?thesis by (intro exI [of _ 1]) simp
    next
      case (Inr formatted)
      with Cons.prems \<open>subscript msg ''id'' = Inr mid\<close> req
      have "fetch_emails w rest (acc @ [formatted]) (tr @ [get_request msg]) = (r, tr')"
        by (auto simp: bind_io_def lift_io_def lift_exn_def gmail_call_def bind_exn_def bind_raised_def split: sum.splits raised.splits)
      from Cons.IH [OF this] obtain k where "k \<le> length rest"
        and "tr' = (tr @ [get_request msg]) @ map get_request (take k rest)"
        by blast
      then show ?thesis by (intro exI [of _ "Suc k"]) simp
    qed
  qed
qed

lemma list_emails_raised:
  "get_gmail_service w [] = (Inl e, tr0) \<Longrightarrow> snd (list_emails w n q l []) = tr0"
  by (simp add: list_emails_unfold try_except_def bind_io_def split: raised.splits)

lemma list_emails_service:
  assumes "get_gmail_service w [] = (Inr (Some sv), tr0)"
  shows "\<exists>k. snd (list_emails w n q l []) =
           tr0 @ GmailList ''me'' (search_query l q) n
             # map get_request (take k (listed_entries w n q l))"
proof -
  let ?lst = "GmailList ''me'' (search_query l q) n"
  let ?start = "tr0 @ [?lst]"
  have tr0: "trace_of (get_gmail_service w) = tr0"
    using assms by (simp add: trace_of_def)
  show ?thesis
  proof (cases "bind_raised (gmail_execute w tr0 ?lst) (\<lambda>results.
                 lift_exn (dict_get results ''messages'' (JList [])))")
    case (Inl e)
    with assms have "snd (list_emails w n q l []) = ?start"
      by (auto simp: list_emails_unfold try_except_def bind_io_def gmail_call_def lift_io_def
          lift_exn_def bind_raised_def split: sum.splits raised.splits)
    then show ?thesis by (intro exI [of _ 0]) simp
  next
    case (Inr messages)
    show ?thesis
    proof (cases "truthy messages")
      case False
      with Inr assms have "snd (list_emails w n q l []) = ?start"
        by (auto simp: list_emails_unfold try_except_def bind_io_def gmail_call_def lift_io_def
            lift_exn_def bind_raised_def return_io_def split: sum.splits raised.splits)
      then show ?thesis by (intro exI [of _ 0]) simp
    next
      case True
      show ?thesis
      proof (cases "py_iter messages")
        case (Inl e)
        with True Inr assms have "snd (list_emails w n q l []) = ?start"
          by (auto simp: list_emails_unfold try_except_def bind_io_def gmail_call_def lift_io_def
              lift_exn_def bind_raised_def return_io_def split: sum.splits raised.splits)
        then show ?thesis by (intro exI [of _ 0]) simp
      next
        case (Inr msgs)
        with True \<open>bind_raised (gmail_execute w tr0 ?lst) (\<lambda>results.
                 lift_exn (dict_get results ''messages'' (JList []))) = Inr messages\<close>
        have listed: "listed_entries w n q l = msgs"
          by (simp add: listed_entries_def tr0)
        obtain r tr' where run: "fetch_emails w msgs [] ?start = (r, tr')"
          by (cases "fetch_emails w msgs [] ?start")
        from fetch_emails_trace [OF run] obtain k
          where tr': "tr' = ?start @ map get_request (take k msgs)"
          by blast
        from run Inr True \<open>bind_raised (gmail_execute w tr0 ?lst) (\<lambda>results.
                 lift_exn (dict_get results ''messages'' (JList []))) = Inr messages\<close> assms
        have "snd (list_emails w n q l []) = tr'"
          by (auto simp: list_emails_unfold try_except_def bind_io_def gmail_call_def lift_io_def
              lift_exn_def bind_raised_def return_io_def split: sum.splits raised.splits)
        with tr' listed show ?thesis by (intro exI [of _ k]) simp
      qed
    qed
  qed
qed

section \<open>Requests issued by the GitHub tools\<close>

lemma list_repositories_trace:
  "get_github_headers w = Some h \<Longrightarrow>
     snd (list_repositories w []) = [HttpReq GET ''https://api.github.com/user/repos'' h None]"
  by (simp add: list_repositories_unfold try_except_def bind_io_def http_call_def lift_io_def lift_exn_def
      return_io_def split: sum.splits raised.splits)

lemma create_repository_trace:
  "get_github_headers w = Some h \<Longrightarrow>
     snd (create_repository w n d p []) =
       [HttpReq POST ''https://api.github.com/user/repos'' h
          (Some (JObj [(''name'', JStr n), (''description'', JStr d), (''private'', JBool p),
                       (''auto_init'', JBool True)]))]"
  by (simp add: create_repository_unfold try_except_def bind_io_def http_call_def lift_io_def lift_exn_def
      return_io_def split: sum.splits raised.splits)

lemma scan_repository_trace:
  "get_github_headers w = Some h \<Longrightarrow>
     snd (scan_repository w r p []) = [HttpReq GET (contents_url r p) h None]"
  by (simp add: scan_repository_unfold try_except_def bind_io_def http_call_def lift_io_def lift_exn_def
      return_io_def split: sum.splits raised.splits)

text \<open>The GET of \<^verbatim>\<open>push_to_repository\<close> and what decides whether the PUT follows.\<close>

lemma push_requests_exact:
  "get_github_headers w = Some h \<Longrightarrow>
     snd (push_to_repository w r f c m []) =
       HttpReq GET (file_url r f) h None
         # (case bind_raised (http_send w [] (HttpReq GET (file_url r f) h None))
                   (\<lambda>resp. lift_exn (prepare_put w resp c m)) of
              Inr data \<Rightarrow> [HttpReq PUT (file_url r f) h (Some data)]
            | Inl e \<Rightarrow> [])"
  by (auto simp: push_to_repository_unfold try_except_def bind_io_def http_call_def lift_io_def
      lift_exn_def bind_exn_def bind_raised_def prepare_put_def return_io_def
      split: sum.splits raised.splits)

lemma push_stop:
  "get_github_headers w = Some h \<Longrightarrow>
   http_send w [] (HttpReq GET (file_url r f) h None) = Inr resp \<Longrightarrow>
   prepare_put w resp c m = Inl e \<Longrightarrow>
     push_to_repository w r f c m [] =
       (Inr (JObj [(''status'', JStr ''error''),
                   (''message'', JStr (''Error pushing to repository: '' @ exn_str e))]),
        [HttpReq GET (file_url r f) h None])"
  by (auto simp: push_to_repository_unfold try_except_def bind_io_def http_call_def lift_io_def
      lift_exn_def bind_exn_def prepare_put_def split: sum.splits raised.splits)

lemma push_put:
  "get_github_headers w = Some h \<Longrightarrow>
   http_send w [] (HttpReq GET (file_url r f) h None) = Inr resp \<Longrightarrow>
   prepare_put w resp c m = Inr data \<Longrightarrow>
     snd (push_to_repository w r f c m []) =
       [HttpReq GET (file_url r f) h None, HttpReq PUT (file_url r f) h (Some data)]"
  by (simp add: push_requests_exact bind_raised_def lift_exn_def)

lemma list_repositories_status:
  "get_github_headers w = Some h \<Longrightarrow>
   http_send w [] (HttpReq GET ''https://api.github.com/user/repos'' h None) = Inr resp \<Longrightarrow>
   status_code resp \<noteq> 200 \<Longrightarrow>
     fst (list_repositories w []) =
       Inr (JObj [(''status'', JStr ''error''), (''message'', JStr (api_error_message resp)),
                  (''repositories'', JList [])])"
  by (simp add: list_repositories_unfold try_except_def bind_io_def http_call_def return_io_def)

lemma create_repository_status:
  "get_github_headers w = Some h \<Longrightarrow>
   http_send w []
     (HttpReq POST ''https://api.github.com/user/repos'' h
        (Some (JObj [(''name'', JStr n), (''description'', JStr d), (''private'', JBool p),
                     (''auto_init'', JBool True)]))) = Inr resp \<Longrightarrow>
   status_code resp \<noteq> 200 \<Longrightarrow> status_code resp \<noteq> 201 \<Longrightarrow>
     fst (create_repository w n d p []) =
       Inr (JObj [(''status'', JStr ''error''), (''message'', JStr (api_error_message resp))])"
  by (simp add: create_repository_unfold try_except_def bind_io_def http_call_def return_io_def)

lemma scan_repository_status:
  "get_github_headers w = Some h \<Longrightarrow>
   http_send w [] (HttpReq GET (contents_url r p) h None) = Inr resp \<Longrightarrow>
   status_code resp \<noteq> 200 \<Longrightarrow>
     fst (scan_repository w r p []) =
       Inr (JObj [(''status'', JStr ''error''), (''message'', JStr (api_error_message resp)),
                  (''contents'', JList [])])"
  by (simp add: scan_repository_unfold try_except_def bind_io_def http_call_def return_io_def)

lemma push_put_status:
  "get_github_headers w = Some h \<Longrightarrow>
   http_send w [] (HttpReq GET (file_url r f) h None) = Inr resp1 \<Longrightarrow>
   prepare_put w resp1 c m = Inr data \<Longrightarrow>
   http_send w [HttpReq GET (file_url r f) h None]
     (HttpReq PUT (file_url r f) h (Some data)) = Inr resp \<Longrightarrow>
   status_code resp \<noteq> 200 \<Longrightarrow> status_code resp \<noteq> 201 \<Longrightarrow>
     fst (push_to_repository w r f c m []) =
       Inr (JObj [(''status'', JStr ''error''), (''message'', JStr (api_error_message resp))])"
  by (auto simp: push_to_repository_unfold try_except_def bind_io_def http_call_def lift_io_def
      lift_exn_def bind_exn_def prepare_put_def return_io_def split: sum.splits raised.splits)

lemma existing_sha_not_200: "status_code resp \<noteq> 200 \<Longrightarrow> existing_sha resp = Inr JNull"
  by (simp add: existing_sha_def)

section \<open>How many requests an invocation issues\<close>

lemma api_requests_Nil: "api_requests [] = []"
  by (simp add: api_requests_def)

lemma api_requests_append: "api_requests (a @ b) = api_requests a @ api_requests b"
  by (simp add: api_requests_def)

lemma api_requests_Cons: "is_api_request r \<Longrightarrow> api_requests (r # rs) = r # api_requests rs"
  by (simp add: api_requests_def)

lemma is_api_delete_request: "is_api_request (delete_request i t)"
  by (simp add: delete_request_def)

lemma api_requests_gets: "api_requests (map get_request msgs) = map get_request msgs"
  by (induction msgs) (simp_all add: api_requests_def get_request_def)

lemmas api_simps = api_requests_Nil api_requests_append api_requests_Cons is_api_delete_request
  api_requests_gets




lemma list_emails_api:
  "\<exists>k. api_requests (trace_of (list_emails w n q l)) =
         (if gmail_ready w
          then GmailList ''me'' (search_query l q) n
                 # map get_request (take k (listed_entries w n q l))
          else [])"
proof (cases w rule: gmail_auth_cases)
  case (Raised e tr0)
  then show ?thesis
    by (simp add: trace_of_def list_emails_raised gmail_ready_iff [OF Raised(1)])
next
  case No_Service
  then show ?thesis
    by (simp add: trace_of_def list_emails_no_service gmail_ready_iff [OF No_Service] api_simps)
next
  case (Service tr0)
  from list_emails_service [OF Service(1), of n q l] obtain k
    where "snd (list_emails w n q l []) =
             tr0 @ GmailList ''me'' (search_query l q) n
               # map get_request (take k (listed_entries w n q l))"
    by blast
  with Service show ?thesis
    by (intro exI [of _ k])
      (simp add: trace_of_def [of "list_emails w n q l"] gmail_ready_iff [OF Service(1)]
        api_simps)
qed

lemma list_repositories_requests:
  "trace_of (list_repositories w) =
     (case get_github_headers w of
        None \<Rightarrow> []
      | Some h \<Rightarrow> [HttpReq GET ''https://api.github.com/user/repos'' h None])"
  by (simp add: trace_of_def list_repositories_trace list_repositories_no_headers
      split: option.splits)

lemma create_repository_requests:
  "trace_of (create_repository w n d p) =
     (case get_github_headers w of
        None \<Rightarrow> []
      | Some h \<Rightarrow>
          [HttpReq POST ''https://api.github.com/user/repos'' h
             (Some (JObj [(''name'', JStr n), (''description'', JStr d),
                          (''private'', JBool p), (''auto_init'', JBool True)]))])"
  by (simp add: trace_of_def create_repository_trace create_repository_no_headers
      split: option.splits)

lemma scan_repository_requests:
  "trace_of (scan_repository w r p) =
     (case get_github_headers w of
        None \<Rightarrow> []
      | Some h \<Rightarrow> [HttpReq GET (contents_url r p) h None])"
  by (simp add: trace_of_def scan_repository_trace scan_repository_no_headers
      split: option.splits)

lemma push_to_repository_requests:
  "trace_of (push_to_repository w r f c m) =
     (case get_github_headers w of
        None \<Rightarrow> []
      | Some h \<Rightarrow>
          HttpReq GET (file_url r f) h None
            # (case bind_raised (http_send w [] (HttpReq GET (file_url r f) h None))
                      (\<lambda>resp. lift_exn (prepare_put w resp c m)) of
                 Inr data \<Rightarrow> [HttpReq PUT (file_url r f) h (Some data)]
               | Inl e \<Rightarrow> []))"
  by (simp add: trace_of_def push_requests_exact push_to_repository_no_headers
      split: option.splits)

lemma world_ok_ready: "gmail_ready world_ok"
  by (simp add: gmail_ready_def result_of_def get_gmail_service_def world_ok_def
      build_service_def raise_opt_def bind_io_def return_io_def lift_io_def lift_exn_def)

lemma world_ok_headers: "get_github_headers world_ok = Some ok_headers"
  by (simp add: get_github_headers_def get_github_auth_def world_ok_def ok_headers_def
      bind_exn_def dict_get_def)




section \<open>The flag of delete_email and the collection keys\<close>

lemma world_ok_auth: "get_gmail_service world_ok [] = (Inr (Some GmailService), [])"
  by (simp add: get_gmail_service_def world_ok_def build_service_def raise_opt_def bind_io_def
      return_io_def lift_io_def lift_exn_def)

text \<open>
  Claim C10.  \<^verbatim>\<open>delete_email\<close> issues one API request, chosen by the flag: the trash
  request when \<open>trash\<close> holds (the default of the parameter), the permanent delete request
  otherwise, and never both; when that request succeeds the message returned is
  \<^verbatim>\<open>Email moved to trash successfully\<close>, respectively
  \<^verbatim>\<open>Email permanently deleted successfully\<close>.
\<close>

theorem delete_email_selects_endpoint:
  "api_requests (trace_of (delete_email w email_id trash)) =
     (if gmail_ready w
      then [if trash then GmailTrash ''me'' email_id else GmailDelete ''me'' email_id]
      else [])
   \<and> (gmail_ready w
      \<and> gmail_execute w (trace_of (get_gmail_service w))
           (if trash then GmailTrash ''me'' email_id else GmailDelete ''me'' email_id) = Inr r
      \<longrightarrow> result_of (delete_email w email_id trash) =
            Inr (JObj [(''status'', JStr ''success''),
                       (''message'',
                        JStr (if trash then ''Email moved to trash successfully''
                              else ''Email permanently deleted successfully''))]))"
proof (cases w rule: gmail_auth_cases)
  case (Raised e tr0)
  then show ?thesis
    by (simp add: trace_of_def delete_email_raised gmail_ready_iff [OF Raised(1)])
next
  case No_Service
  then show ?thesis
    by (simp add: trace_of_def delete_email_no_service gmail_ready_iff [OF No_Service]
        api_requests_Nil)
next
  case (Service tr0)
  then show ?thesis
    by (simp add: trace_of_def result_of_def delete_email_service [OF Service(1)]
        gmail_ready_iff [OF Service(1)] api_simps delete_request_def)
qed

theorem delete_email_selects_endpoint_witness:
  "gmail_ready world_ok
   \<and> api_requests (trace_of (delete_email world_ok ''m1'' True)) = [GmailTrash ''me'' ''m1'']
   \<and> result_of (delete_email world_ok ''m1'' True) =
       Inr (JObj [(''status'', JStr ''success''),
                  (''message'', JStr ''Email moved to trash successfully'')])
   \<and> api_requests (trace_of (delete_email world_ok ''m1'' False)) = [GmailDelete ''me'' ''m1'']
   \<and> result_of (delete_email world_ok ''m1'' False) =
       Inr (JObj [(''status'', JStr ''success''),
                  (''message'', JStr ''Email permanently deleted successfully'')])"
  using delete_email_selects_endpoint [of world_ok "''m1''" True "JObj [(''id'', JStr ''m1'')]"]
    delete_email_selects_endpoint [of world_ok "''m1''" False "JStr []"]
    world_ok_ready world_ok_auth
  by (simp add: trace_of_def world_ok_def)

lemma try_except_collection:
  assumes "returns (collection_dict k) body" and "\<And>e. collection_dict k (handler e)"
  shows "keeps_collection k (try_except body handler)"
proof (cases "body []")
  case (Pair r tr')
  show ?thesis
  proof (cases r)
    case (Inl e)
    with Pair assms(2) show ?thesis
      by (cases e) (simp_all add: keeps_collection_def result_of_def try_except_def)
  next
    case (Inr x)
    with Pair assms(1) have "collection_dict k x"
      by (auto simp: returns_def)
    with Pair Inr show ?thesis
      by (simp add: keeps_collection_def result_of_def try_except_def)
  qed
qed

lemma list_emails_collection: "keeps_collection ''emails'' (list_emails w n q l)"
  unfolding list_emails_unfold
  by (intro try_except_collection returns_intros) (simp_all add: collection_dict_def)

lemma list_repositories_collection: "keeps_collection ''repositories'' (list_repositories w)"
  unfolding list_repositories_unfold
  by (intro try_except_collection returns_intros) (simp_all add: collection_dict_def)

lemma scan_repository_collection: "keeps_collection ''contents'' (scan_repository w r p)"
  unfolding scan_repository_unfold
  by (intro try_except_collection returns_intros) (simp_all add: collection_dict_def)

text \<open>
  Claim C8.  Whatever the environment and the arguments, the dictionary returned by
  \<^verbatim>\<open>list_emails\<close> binds \<^verbatim>\<open>emails\<close> to a list, the one returned by
  \<^verbatim>\<open>list_repositories\<close> binds \<^verbatim>\<open>repositories\<close> to a list, the one returned by
  \<^verbatim>\<open>scan_repository\<close> binds \<^verbatim>\<open>contents\<close> to a list, and that list is empty whenever
  the status is \<^verbatim>\<open>"error"\<close>.
\<close>

theorem collection_key_on_every_path:
  "keeps_collection ''emails'' (list_emails w max_results query label)
   \<and> keeps_collection ''repositories'' (list_repositories w)
   \<and> keeps_collection ''contents'' (scan_repository w repo_name path)"
  by (simp add: list_emails_collection list_repositories_collection scan_repository_collection)

theorem collection_key_on_every_path_witness:
  "result_of (list_emails world_down 10 [] ''INBOX'') =
     Inr (JObj [(''status'', JStr ''error''),
                (''message'', JStr ''Error listing emails: Backend Error''),
                (''emails'', JList [])])
   \<and> keeps_collection ''emails'' (list_emails world_down 10 [] ''INBOX'')
   \<and> keeps_collection ''repositories'' (list_repositories world_down)
   \<and> keeps_collection ''contents'' (scan_repository world_down ''o/r'' [])"
proof -
  have "result_of (list_emails world_down 10 [] ''INBOX'') =
     Inr (JObj [(''status'', JStr ''error''),
                (''message'', JStr ''Error listing emails: Backend Error''),
                (''emails'', JList [])])"
    by code_simp
  with collection_key_on_every_path [of world_down 10 "[]" "''INBOX''" "''o/r''" "[]"]
  show ?thesis by simp
qed

section \<open>The upsert of push_to_repository\<close>

lemma existing_sha_200:
  "status_code resp = 200 \<Longrightarrow> json_result resp = Inr (JObj kvs) \<Longrightarrow>
     existing_sha resp = Inr (case map_of kvs ''sha'' of Some s \<Rightarrow> s | None \<Rightarrow> JNull)"
  by (simp add: existing_sha_def bind_exn_def dict_get_def)

lemma put_data_no_sha:
  "put_data m c JNull = JObj [(''message'', JStr m), (''content'', JStr (b64encode c))]"
  by (simp add: put_data_def)

lemma put_data_lookup:
  "put_data m c (case map_of kvs ''sha'' of Some s \<Rightarrow> s | None \<Rightarrow> JNull) =
     JObj ([(''message'', JStr m), (''content'', JStr (b64encode c))]
           @ (case map_of kvs ''sha'' of
                Some s \<Rightarrow> if truthy s then [(''sha'', s)] else []
              | None \<Rightarrow> []))"
  by (simp add: put_data_def split: option.splits)

lemma prepare_put_not_200:
  "status_code resp \<noteq> 200 \<Longrightarrow> encode_utf8 w c = Inr encoded \<Longrightarrow>
     prepare_put w resp c m = Inr (put_data m encoded JNull)"
  by (simp add: prepare_put_def bind_exn_def existing_sha_not_200)

lemma prepare_put_200:
  "status_code resp = 200 \<Longrightarrow> json_result resp = Inr (JObj kvs) \<Longrightarrow>
   encode_utf8 w c = Inr encoded \<Longrightarrow>
     prepare_put w resp c m =
       Inr (put_data m encoded (case map_of kvs ''sha'' of Some s \<Rightarrow> s | None \<Rightarrow> JNull))"
  by (simp add: prepare_put_def bind_exn_def existing_sha_200)

lemma prepare_put_unencodable:
  "existing_sha resp = Inr sha \<Longrightarrow> encode_utf8 w c = Inl e \<Longrightarrow>
     prepare_put w resp c m = Inl e"
  by (simp add: prepare_put_def bind_exn_def)

text \<open>
  Claim C9, as amended.  Once authenticated, \<^verbatim>\<open>push_to_repository\<close> first issues a GET
  for the target file path.  If the GET answers with a status other than 200 and the
  content can be encoded, the PUT of the same URL follows, and its body is the commit
  message and the standard Base64 text of the encoded content, without \<^verbatim>\<open>sha\<close>.  If the
  GET answers 200 with a JSON object and the content can be encoded, the PUT follows with
  the same two entries, and its body has a \<^verbatim>\<open>sha\<close> key exactly when that object binds
  \<^verbatim>\<open>sha\<close> to a truthy value, which is then the value sent.  If encoding the content
  raises (a string with a lone surrogate), no PUT is issued and the function returns the
  error dictionary of its handler.
\<close>

theorem push_upsert:
  "(get_github_headers w = Some h \<longrightarrow>
      (\<exists>rest. trace_of (push_to_repository w repo_name file_path content commit_message) =
                HttpReq GET (file_url repo_name file_path) h None # rest))
   \<and> (get_github_headers w = Some h
      \<and> http_send w [] (HttpReq GET (file_url repo_name file_path) h None) = Inr response
      \<and> status_code response \<noteq> 200
      \<and> encode_utf8 w content = Inr encoded \<longrightarrow>
      trace_of (push_to_repository w repo_name file_path content commit_message) =
        [HttpReq GET (file_url repo_name file_path) h None,
         HttpReq PUT (file_url repo_name file_path) h
           (Some (JObj [(''message'', JStr commit_message),
                        (''content'', JStr (b64encode encoded))]))])
   \<and> (get_github_headers w = Some h
      \<and> http_send w [] (HttpReq GET (file_url repo_name file_path) h None) = Inr response
      \<and> status_code response = 200 \<and> json_result response = Inr (JObj kvs)
      \<and> encode_utf8 w content = Inr encoded \<longrightarrow>
      trace_of (push_to_repository w repo_name file_path content commit_message) =
        [HttpReq GET (file_url repo_name file_path) h None,
         HttpReq PUT (file_url repo_name file_path) h
           (Some (JObj ([(''message'', JStr commit_message),
                         (''content'', JStr (b64encode encoded))]
                        @ (case map_of kvs ''sha'' of
                             Some s \<Rightarrow> if truthy s then [(''sha'', s)] else []
                           | None \<Rightarrow> []))))])
   \<and> (get_github_headers w = Some h
      \<and> http_send w [] (HttpReq GET (file_url repo_name file_path) h None) = Inr response
      \<and> existing_sha response = Inr sha
      \<and> encode_utf8 w content = Inl e \<longrightarrow>
      push_to_repository w repo_name file_path content commit_message [] =
        (Inr (JObj [(''status'', JStr ''error''),
                    (''message'', JStr (''Error pushing to repository: '' @ exn_str e))]),
         [HttpReq GET (file_url repo_name file_path) h None]))"
proof (intro conjI impI)
  assume "get_github_headers w = Some h"
  then show "\<exists>rest. trace_of (push_to_repository w repo_name file_path content commit_message) =
                HttpReq GET (file_url repo_name file_path) h None # rest"
    by (simp add: push_to_repository_requests)
next
  assume a: "get_github_headers w = Some h
      \<and> http_send w [] (HttpReq GET (file_url repo_name file_path) h None) = Inr response
      \<and> status_code response \<noteq> 200
      \<and> encode_utf8 w content = Inr encoded"
  then have "prepare_put w response content commit_message
               = Inr (put_data commit_message encoded JNull)"
    by (simp add: prepare_put_not_200)
  with a show "trace_of (push_to_repository w repo_name file_path content commit_message) =
        [HttpReq GET (file_url repo_name file_path) h None,
         HttpReq PUT (file_url repo_name file_path) h
           (Some (JObj [(''message'', JStr commit_message),
                        (''content'', JStr (b64encode encoded))]))]"
    by (simp add: trace_of_def push_put put_data_no_sha)
next
  assume a: "get_github_headers w = Some h
      \<and> http_send w [] (HttpReq GET (file_url repo_name file_path) h None) = Inr response
      \<and> status_code response = 200 \<and> json_result response = Inr (JObj kvs)
      \<and> encode_utf8 w content = Inr encoded"
  then have "prepare_put w response content commit_message
               = Inr (put_data commit_message encoded
                        (case map_of kvs ''sha'' of Some s \<Rightarrow> s | None \<Rightarrow> JNull))"
    by (simp add: prepare_put_200)
  with a show "trace_of (push_to_repository w repo_name file_path content commit_message) =
        [HttpReq GET (file_url repo_name file_path) h None,
         HttpReq PUT (file_url repo_name file_path) h
           (Some (JObj ([(''message'', JStr commit_message),
                         (''content'', JStr (b64encode encoded))]
                        @ (case map_of kvs ''sha'' of
                             Some s \<Rightarrow> if truthy s then [(''sha'', s)] else []
                           | None \<Rightarrow> []))))]"
    by (simp add: trace_of_def push_put put_data_lookup)
next
  assume a: "get_github_headers w = Some h
      \<and> http_send w [] (HttpReq GET (file_url repo_name file_path) h None) = Inr response
      \<and> existing_sha response = Inr sha
      \<and> encode_utf8 w content = Inl e"
  then have "prepare_put w response content commit_message = Inl e"
    by (simp add: prepare_put_unencodable)
  with a show "push_to_repository w repo_name file_path content commit_message [] =
        (Inr (JObj [(''status'', JStr ''error''),
                    (''message'', JStr (''Error pushing to repository: '' @ exn_str e))]),
         [HttpReq GET (file_url repo_name file_path) h None])"
    by (simp add: push_stop)
qed

lemma encode_hi: "encode_utf8 world_ok ''hi'' = Inr ''hi''"
  by code_simp

lemma encode_surrogate:
  "encode_utf8 world_ok [CHR 0xED, CHR 0xA0, CHR 0x80] =
     Inl (PyExn ''UnicodeEncodeError''
            (squote ''utf-8'' @ '' codec cannot encode: surrogates not allowed''))"
  by code_simp

theorem push_upsert_witness:
  "get_github_headers world_ok = Some ok_headers
   \<and> http_send world_ok [] (HttpReq GET (file_url ''o/r'' ''new.txt'') ok_headers None) =
       reply 404 ''Not Found'' (JObj [(''message'', JStr ''Not Found'')])
   \<and> trace_of (push_to_repository world_ok ''o/r'' ''new.txt'' ''hi'' ''add'') =
       [HttpReq GET (file_url ''o/r'' ''new.txt'') ok_headers None,
        HttpReq PUT (file_url ''o/r'' ''new.txt'') ok_headers
          (Some (JObj [(''message'', JStr ''add''), (''content'', JStr ''aGk='')]))]
   \<and> http_send world_ok [] (HttpReq GET (file_url ''o/r'' ''old.txt'') ok_headers None) =
       reply 200 ''{...}'' (JObj [(''name'', JStr ''old.txt''), (''sha'', JStr ''abc'')])
   \<and> trace_of (push_to_repository world_ok ''o/r'' ''old.txt'' ''hi'' ''update'') =
       [HttpReq GET (file_url ''o/r'' ''old.txt'') ok_headers None,
        HttpReq PUT (file_url ''o/r'' ''old.txt'') ok_headers
          (Some (JObj [(''message'', JStr ''update''), (''content'', JStr ''aGk=''),
                       (''sha'', JStr ''abc'')]))]
   \<and> push_to_repository world_ok ''o/r'' ''new.txt'' [CHR 0xED, CHR 0xA0, CHR 0x80] ''add'' [] =
       (Inr (JObj [(''status'', JStr ''error''),
                   (''message'',
                    JStr (''Error pushing to repository: '' @ squote ''utf-8''
                          @ '' codec cannot encode: surrogates not allowed''))]),
        [HttpReq GET (file_url ''o/r'' ''new.txt'') ok_headers None])"
proof -
  let ?r404 = "\<lparr>status_code = 404, text_of = ''Not Found'',
                json_result = Inr (JObj [(''message'', JStr ''Not Found'')])\<rparr>"
  let ?r200 = "\<lparr>status_code = 200, text_of = ''{...}'',
                json_result = Inr (JObj [(''name'', JStr ''old.txt''), (''sha'', JStr ''abc'')])\<rparr>"
  let ?bad = "PyExn ''UnicodeEncodeError''
                (squote ''utf-8'' @ '' codec cannot encode: surrogates not allowed'')"
  have new: "http_send world_ok [] (HttpReq GET (file_url ''o/r'' ''new.txt'') ok_headers None) =
       reply 404 ''Not Found'' (JObj [(''message'', JStr ''Not Found'')])"
    by (simp add: world_ok_def file_url_def)
  have old: "http_send world_ok [] (HttpReq GET (file_url ''o/r'' ''old.txt'') ok_headers None) =
       reply 200 ''{...}'' (JObj [(''name'', JStr ''old.txt''), (''sha'', JStr ''abc'')])"
    by (simp add: world_ok_def file_url_def)
  have sha: "existing_sha ?r404 = Inr JNull"
    by (simp add: existing_sha_def)
  note created = push_upsert [where w = world_ok and h = ok_headers and repo_name = "''o/r''"
      and file_path = "''new.txt''" and content = "''hi''" and commit_message = "''add''"
      and response = ?r404 and encoded = "''hi''" and kvs = "[]" and sha = JNull and e = ?bad]
  note updated = push_upsert [where w = world_ok and h = ok_headers and repo_name = "''o/r''"
      and file_path = "''old.txt''" and content = "''hi''" and commit_message = "''update''"
      and response = ?r200 and encoded = "''hi''"
      and kvs = "[(''name'', JStr ''old.txt''), (''sha'', JStr ''abc'')]"
      and sha = JNull and e = ?bad]
  note refused = push_upsert [where w = world_ok and h = ok_headers and repo_name = "''o/r''"
      and file_path = "''new.txt''" and content = "[CHR 0xED, CHR 0xA0, CHR 0x80]"
      and commit_message = "''add''" and response = ?r404 and encoded = "[]" and kvs = "[]"
      and sha = JNull and e = ?bad]
  from created new world_ok_headers encode_hi
  have c: "trace_of (push_to_repository world_ok ''o/r'' ''new.txt'' ''hi'' ''add'') =
       [HttpReq GET (file_url ''o/r'' ''new.txt'') ok_headers None,
        HttpReq PUT (file_url ''o/r'' ''new.txt'') ok_headers
          (Some (JObj [(''message'', JStr ''add''), (''content'', JStr ''aGk='')]))]"
    by (simp add: reply_def b64_char_def b64_alphabet_def)
  from updated old world_ok_headers encode_hi
  have u: "trace_of (push_to_repository world_ok ''o/r'' ''old.txt'' ''hi'' ''update'') =
       [HttpReq GET (file_url ''o/r'' ''old.txt'') ok_headers None,
        HttpReq PUT (file_url ''o/r'' ''old.txt'') ok_headers
          (Some (JObj [(''message'', JStr ''update''), (''content'', JStr ''aGk=''),
                       (''sha'', JStr ''abc'')]))]"
    by (simp add: reply_def b64_char_def b64_alphabet_def)
  from refused new world_ok_headers encode_surrogate sha
  have r: "push_to_repository world_ok ''o/r'' ''new.txt'' [CHR 0xED, CHR 0xA0, CHR 0x80] ''add'' [] =
       (Inr (JObj [(''status'', JStr ''error''),
                   (''message'',
                    JStr (''Error pushing to repository: '' @ squote ''utf-8''
                          @ '' codec cannot encode: surrogates not allowed''))]),
        [HttpReq GET (file_url ''o/r'' ''new.txt'') ok_headers None])"
    by (simp add: reply_def)
  from c u r new old world_ok_headers show ?thesis
    by simp
qed

text \<open>
  The claim as stated fails in the direction from status 200 to the \<^verbatim>\<open>sha\<close> key: the GET
  for \<^verbatim>\<open>odd.txt\<close> answers 200 with an object that has no \<^verbatim>\<open>sha\<close>, and the body of the
  PUT that follows has no \<^verbatim>\<open>sha\<close> key.
\<close>

theorem push_sha_counterexample:
  "http_send world_ok [] (HttpReq GET (file_url ''o/r'' ''odd.txt'') ok_headers None) =
     reply 200 ''{...}'' (JObj [(''name'', JStr ''odd.txt'')])
   \<and> trace_of (push_to_repository world_ok ''o/r'' ''odd.txt'' ''hi'' ''add'') =
       [HttpReq GET (file_url ''o/r'' ''odd.txt'') ok_headers None,
        HttpReq PUT (file_url ''o/r'' ''odd.txt'') ok_headers
          (Some (JObj [(''message'', JStr ''add''), (''content'', JStr ''aGk='')]))]"
  by code_simp

section \<open>No request is issued twice\<close>

lemma not_in_oauth: "api_requests tr0 = [] \<Longrightarrow> is_api_request r \<Longrightarrow> r \<notin> set tr0"
  by (auto simp: api_requests_def filter_empty_conv)

lemma read_email_distinct: "distinct (trace_of (read_email w i))"
proof (cases w rule: gmail_auth_cases)
  case (Raised e tr0)
  then show ?thesis by (simp add: trace_of_def read_email_raised)
next
  case No_Service
  then show ?thesis by (simp add: trace_of_def read_email_no_service)
next
  case (Service tr0)
  then show ?thesis
    by (simp add: trace_of_def read_email_service not_in_oauth)
qed

lemma delete_email_distinct: "distinct (trace_of (delete_email w i t))"
proof (cases w rule: gmail_auth_cases)
  case (Raised e tr0)
  then show ?thesis by (simp add: trace_of_def delete_email_raised)
next
  case No_Service
  then show ?thesis by (simp add: trace_of_def delete_email_no_service)
next
  case (Service tr0)
  then show ?thesis
    by (simp add: trace_of_def delete_email_service not_in_oauth is_api_delete_request)
qed

lemma send_email_distinct: "distinct (trace_of (send_email w t s b h))"
proof (cases w rule: gmail_auth_cases)
  case (Raised e tr0)
  then show ?thesis by (simp add: trace_of_def send_email_raised)
next
  case No_Service
  then show ?thesis by (simp add: trace_of_def send_email_no_service)
next
  case (Service tr0)
  with send_email_service [OF Service(1), of t s b h] show ?thesis
    by (auto simp: trace_of_def not_in_oauth)
qed

lemma list_repositories_distinct: "distinct (trace_of (list_repositories w))"
  by (simp add: list_repositories_requests split: option.splits)

lemma create_repository_distinct: "distinct (trace_of (create_repository w n d p))"
  by (simp add: create_repository_requests split: option.splits)

lemma scan_repository_distinct: "distinct (trace_of (scan_repository w r p))"
  by (simp add: scan_repository_requests split: option.splits)

lemma push_to_repository_distinct: "distinct (trace_of (push_to_repository w r f c m))"
  by (simp add: push_to_repository_requests split: option.splits sum.splits)



lemma push_get_ignored:
  assumes "get_github_headers w = Some h"
    and "http_send w [] (HttpReq GET (file_url r f) h None) = Inr resp"
    and "status_code resp \<noteq> 200"
    and "encode_utf8 w c = Inr encoded"
  shows "trace_of (push_to_repository w r f c m) =
           [HttpReq GET (file_url r f) h None,
            HttpReq PUT (file_url r f) h (Some (put_data m encoded JNull))]"
  using assms by (simp add: trace_of_def push_put prepare_put_not_200)

lemma push_put_refused:
  assumes "get_github_headers w = Some h"
    and "http_send w [] (HttpReq GET (file_url r f) h None) = Inr resp1"
    and "prepare_put w resp1 c m = Inr data"
    and "http_send w [HttpReq GET (file_url r f) h None]
           (HttpReq PUT (file_url r f) h (Some data)) = Inr resp"
    and "status_code resp \<noteq> 200" and "status_code resp \<noteq> 201"
  shows "push_to_repository w r f c m [] =
           (Inr (JObj [(''status'', JStr ''error''), (''message'', JStr (api_error_message resp))]),
            [HttpReq GET (file_url r f) h None, HttpReq PUT (file_url r f) h (Some data)])"
  using push_put_status [OF assms] push_put [OF assms(1-3)]
  by (simp add: prod_eq_iff)

text \<open>
  Claim C7, as amended.  No tool function issues a request twice: the requests of one
  invocation of \<^verbatim>\<open>read_email\<close>, \<^verbatim>\<open>send_email\<close>, \<^verbatim>\<open>delete_email\<close>,
  \<^verbatim>\<open>list_repositories\<close>, \<^verbatim>\<open>create_repository\<close>, \<^verbatim>\<open>scan_repository\<close> and
  \<^verbatim>\<open>push_to_repository\<close> are pairwise different, and the API requests of
  \<^verbatim>\<open>list_emails\<close> are its \<^verbatim>\<open>list\<close> request, once, whether it succeeds or not, followed
  by one \<^verbatim>\<open>get\<close> for each of the first entries that the list response names, in its
  order.  When the GET of \<^verbatim>\<open>list_repositories\<close> or of \<^verbatim>\<open>scan_repository\<close> answers with
  a status other than 200, or the POST of \<^verbatim>\<open>create_repository\<close> or the PUT of
  \<^verbatim>\<open>push_to_repository\<close> with a status other than 200 and 201, the function returns the
  error dictionary whose message is \<^verbatim>\<open>GitHub API error: {status} - {text}\<close> and issues
  nothing further.  The status of the GET that \<^verbatim>\<open>push_to_repository\<close> issues first is
  never reported: whatever status other than 200 it has, the PUT follows, without
  \<^verbatim>\<open>sha\<close>, provided the content can be encoded.
\<close>

theorem no_retry:
  "distinct (trace_of (read_email w email_id))
   \<and> distinct (trace_of (send_email w to subject body is_html))
   \<and> distinct (trace_of (delete_email w email_id' trash))
   \<and> distinct (trace_of (list_repositories w))
   \<and> distinct (trace_of (create_repository w name description private))
   \<and> distinct (trace_of (scan_repository w repo_name path))
   \<and> distinct (trace_of (push_to_repository w repo_name' file_path content commit_message))
   \<and> (\<exists>k. api_requests (trace_of (list_emails w max_results query label)) =
              (if gmail_ready w
               then GmailList ''me'' (search_query label query) max_results
                      # map get_request (take k (listed_entries w max_results query label))
               else []))
   \<and> (get_github_headers w = Some h
      \<and> http_send w [] (HttpReq GET ''https://api.github.com/user/repos'' h None) = Inr response
      \<and> status_code response \<noteq> 200 \<longrightarrow>
      list_repositories w [] =
        (Inr (JObj [(''status'', JStr ''error''),
                    (''message'', JStr (api_error_message response)),
                    (''repositories'', JList [])]),
         [HttpReq GET ''https://api.github.com/user/repos'' h None]))
   \<and> (get_github_headers w = Some h
      \<and> http_send w []
           (HttpReq POST ''https://api.github.com/user/repos'' h
              (Some (JObj [(''name'', JStr name), (''description'', JStr description),
                           (''private'', JBool private), (''auto_init'', JBool True)])))
          = Inr response
      \<and> status_code response \<noteq> 200 \<and> status_code response \<noteq> 201 \<longrightarrow>
      create_repository w name description private [] =
        (Inr (JObj [(''status'', JStr ''error''),
                    (''message'', JStr (api_error_message response))]),
         [HttpReq POST ''https://api.github.com/user/repos'' h
            (Some (JObj [(''name'', JStr name), (''description'', JStr description),
                         (''private'', JBool private), (''auto_init'', JBool True)]))]))
   \<and> (get_github_headers w = Some h
      \<and> http_send w [] (HttpReq GET (contents_url repo_name path) h None) = Inr response
      \<and> status_code response \<noteq> 200 \<longrightarrow>
      scan_repository w repo_name path [] =
        (Inr (JObj [(''status'', JStr ''error''),
                    (''message'', JStr (api_error_message response)),
                    (''contents'', JList [])]),
         [HttpReq GET (contents_url repo_name path) h None]))
   \<and> (get_github_headers w = Some h
      \<and> http_send w [] (HttpReq GET (file_url repo_name' file_path) h None) = Inr first
      \<and> prepare_put w first content commit_message = Inr data
      \<and> http_send w [HttpReq GET (file_url repo_name' file_path) h None]
           (HttpReq PUT (file_url repo_name' file_path) h (Some data)) = Inr response
      \<and> status_code response \<noteq> 200 \<and> status_code response \<noteq> 201 \<longrightarrow>
      push_to_repository w repo_name' file_path content commit_message [] =
        (Inr (JObj [(''status'', JStr ''error''),
                    (''message'', JStr (api_error_message response))]),
         [HttpReq GET (file_url repo_name' file_path) h None,
          HttpReq PUT (file_url repo_name' file_path) h (Some data)]))
   \<and> (get_github_headers w = Some h
      \<and> http_send w [] (HttpReq GET (file_url repo_name' file_path) h None) = Inr first
      \<and> status_code first \<noteq> 200
      \<and> encode_utf8 w content = Inr encoded \<longrightarrow>
      trace_of (push_to_repository w repo_name' file_path content commit_message) =
        [HttpReq GET (file_url repo_name' file_path) h None,
         HttpReq PUT (file_url repo_name' file_path) h
           (Some (put_data commit_message encoded JNull))])"
proof (intro conjI impI)
  show "distinct (trace_of (read_email w email_id))"
    by (rule read_email_distinct)
  show "distinct (trace_of (send_email w to subject body is_html))"
    by (rule send_email_distinct)
  show "distinct (trace_of (delete_email w email_id' trash))"
    by (rule delete_email_distinct)
  show "distinct (trace_of (list_repositories w))"
    by (rule list_repositories_distinct)
  show "distinct (trace_of (create_repository w name description private))"
    by (rule create_repository_distinct)
  show "distinct (trace_of (scan_repository w repo_name path))"
    by (rule scan_repository_distinct)
  show "distinct (trace_of (push_to_repository w repo_name' file_path content commit_message))"
    by (rule push_to_repository_distinct)
  show "\<exists>k. api_requests (trace_of (list_emails w max_results query label)) =
              (if gmail_ready w
               then GmailList ''me'' (search_query label query) max_results
                      # map get_request (take k (listed_entries w max_results query label))
               else [])"
    by (rule list_emails_api)
next
  assume a: "get_github_headers w = Some h
      \<and> http_send w [] (HttpReq GET ''https://api.github.com/user/repos'' h None) = Inr response
      \<and> status_code response \<noteq> 200"
  then show "list_repositories w [] =
        (Inr (JObj [(''status'', JStr ''error''),
                    (''message'', JStr (api_error_message response)),
                    (''repositories'', JList [])]),
         [HttpReq GET ''https://api.github.com/user/repos'' h None])"
    by (simp add: prod_eq_iff list_repositories_status list_repositories_trace)
next
  assume a: "get_github_headers w = Some h
      \<and> http_send w []
           (HttpReq POST ''https://api.github.com/user/repos'' h
              (Some (JObj [(''name'', JStr name), (''description'', JStr description),
                           (''private'', JBool private), (''auto_init'', JBool True)])))
          = Inr response
      \<and> status_code response \<noteq> 200 \<and> status_code response \<noteq> 201"
  then show "create_repository w name description private [] =
        (Inr (JObj [(''status'', JStr ''error''),
                    (''message'', JStr (api_error_message response))]),
         [HttpReq POST ''https://api.github.com/user/repos'' h
            (Some (JObj [(''name'', JStr name), (''description'', JStr description),
                         (''private'', JBool private), (''auto_init'', JBool True)]))])"
    by (simp add: prod_eq_iff create_repository_status create_repository_trace)
next
  assume a: "get_github_headers w = Some h
      \<and> http_send w [] (HttpReq GET (contents_url repo_name path) h None) = Inr response
      \<and> status_code response \<noteq> 200"
  then show "scan_repository w repo_name path [] =
        (Inr (JObj [(''status'', JStr ''error''),
                    (''message'', JStr (api_error_message response)),
                    (''contents'', JList [])]),
         [HttpReq GET (contents_url repo_name path) h None])"
    by (simp add: prod_eq_iff scan_repository_status scan_repository_trace)
next
  assume a: "get_github_headers w = Some h
      \<and> http_send w [] (HttpReq GET (file_url repo_name' file_path) h None) = Inr first
      \<and> prepare_put w first content commit_message = Inr data
      \<and> http_send w [HttpReq GET (file_url repo_name' file_path) h None]
           (HttpReq PUT (file_url repo_name' file_path) h (Some data)) = Inr response
      \<and> status_code response \<noteq> 200 \<and> status_code response \<noteq> 201"
  then show "push_to_repository w repo_name' file_path content commit_message [] =
        (Inr (JObj [(''status'', JStr ''error''),
                    (''message'', JStr (api_error_message response))]),
         [HttpReq GET (file_url repo_name' file_path) h None,
          HttpReq PUT (file_url repo_name' file_path) h (Some data)])"
    by (intro push_put_refused [where ?resp1.0 = first]) simp_all
next
  assume a: "get_github_headers w = Some h
      \<and> http_send w [] (HttpReq GET (file_url repo_name' file_path) h None) = Inr first
      \<and> status_code first \<noteq> 200
      \<and> encode_utf8 w content = Inr encoded"
  then show "trace_of (push_to_repository w repo_name' file_path content commit_message) =
        [HttpReq GET (file_url repo_name' file_path) h None,
         HttpReq PUT (file_url repo_name' file_path) h
           (Some (put_data commit_message encoded JNull))]"
    by (intro push_get_ignored [where resp = first]) simp_all
qed

lemma world_down_headers: "get_github_headers world_down = Some ok_headers"
  by (simp add: get_github_headers_def get_github_auth_def world_down_def world_ok_def
      ok_headers_def bind_exn_def dict_get_def)

lemma world_down_send:
  "http_send world_down tr r =
     Inr \<lparr>status_code = 500, text_of = ''Server Error'',
          json_result = Inl (PyExn ''JSONDecodeError'' ''Expecting value'')\<rparr>"
  by (simp add: world_down_def)

lemma error_500:
  "api_error_message \<lparr>status_code = 500, text_of = ''Server Error'',
      json_result = Inl (PyExn ''JSONDecodeError'' ''Expecting value'')\<rparr> =
     ''GitHub API error: 500 - Server Error''"
  by (simp add: api_error_message_def str_int_def digit_char_def)

lemma world_down_encode: "encode_utf8 world_down ''hi'' = Inr ''hi''"
  by code_simp

lemma world_down_ready: "gmail_ready world_down"
  by (simp add: gmail_ready_def result_of_def get_gmail_service_def world_down_def world_ok_def
      build_service_def raise_opt_def bind_io_def return_io_def lift_io_def lift_exn_def)

lemma world_down_listed: "listed_entries world_down 10 [] ''INBOX'' = []"
  by code_simp

theorem no_retry_witness:
  "list_repositories world_down [] =
     (Inr (JObj [(''status'', JStr ''error''),
                 (''message'', JStr ''GitHub API error: 500 - Server Error''),
                 (''repositories'', JList [])]),
      [HttpReq GET ''https://api.github.com/user/repos'' ok_headers None])
   \<and> create_repository world_down ''new'' [] False [] =
     (Inr (JObj [(''status'', JStr ''error''),
                 (''message'', JStr ''GitHub API error: 500 - Server Error'')]),
      [HttpReq POST ''https://api.github.com/user/repos'' ok_headers
         (Some (JObj [(''name'', JStr ''new''), (''description'', JStr []),
                      (''private'', JBool False), (''auto_init'', JBool True)]))])
   \<and> scan_repository world_down ''o/r'' [] [] =
     (Inr (JObj [(''status'', JStr ''error''),
                 (''message'', JStr ''GitHub API error: 500 - Server Error''),
                 (''contents'', JList [])]),
      [HttpReq GET (contents_url ''o/r'' []) ok_headers None])
   \<and> push_to_repository world_down ''o/r'' ''new.txt'' ''hi'' ''add'' [] =
     (Inr (JObj [(''status'', JStr ''error''),
                 (''message'', JStr ''GitHub API error: 500 - Server Error'')]),
      [HttpReq GET (file_url ''o/r'' ''new.txt'') ok_headers None,
       HttpReq PUT (file_url ''o/r'' ''new.txt'') ok_headers (Some (put_data ''add'' ''hi'' JNull))])
   \<and> api_requests (trace_of (list_emails world_down 10 [] ''INBOX'')) =
       [GmailList ''me'' (search_query ''INBOX'' []) 10]"
proof -
  let ?r500 = "\<lparr>status_code = 500, text_of = ''Server Error'',
                json_result = Inl (PyExn ''JSONDecodeError'' ''Expecting value'')\<rparr>"
  have prep: "prepare_put world_down ?r500 ''hi'' ''add'' = Inr (put_data ''add'' ''hi'' JNull)"
    by (simp add: prepare_put_not_200 world_down_encode)
  note down = no_retry [where w = world_down and h = ok_headers and response = ?r500
      and first = ?r500 and data = "put_data ''add'' ''hi'' JNull" and encoded = "''hi''"
      and name = "''new''" and description = "[]"
      and ?private = False and repo_name = "''o/r''" and path = "[]"
      and repo_name' = "''o/r''" and file_path = "''new.txt''" and content = "''hi''"
      and commit_message = "''add''" and email_id = "[]" and email_id' = "[]"
      and trash = True and ?to = "[]" and subject = "[]" and body = "[]" and is_html = False
      and max_results = 10 and query = "[]" and label = "''INBOX''"]
  from down world_down_headers world_down_send error_500 prep world_down_ready
    world_down_listed
  show ?thesis
    by simp
qed

text \<open>
  The claim as stated fails for the GET of \<^verbatim>\<open>push_to_repository\<close>: it is answered with
  404, a status that is not a success, and the function neither returns nor reports an
  error; it issues the PUT and returns \<^verbatim>\<open>"success"\<close>.
\<close>

theorem push_get_status_counterexample:
  "http_send world_ok [] (HttpReq GET (file_url ''o/r'' ''new.txt'') ok_headers None) =
     reply 404 ''Not Found'' (JObj [(''message'', JStr ''Not Found'')])
   \<and> push_to_repository world_ok ''o/r'' ''new.txt'' ''hi'' ''add'' [] =
     (Inr (JObj
        [(''status'', JStr ''success''),
         (''message'', JStr (''File '' @ squote ''new.txt'' @ '' pushed to repository successfully.'')),
         (''commit'', JObj [(''sha'', JStr ''c1''), (''url'', JNull)])]),
      [HttpReq GET (file_url ''o/r'' ''new.txt'') ok_headers None,
       HttpReq PUT (file_url ''o/r'' ''new.txt'') ok_headers
         (Some (JObj [(''message'', JStr ''add''), (''content'', JStr ''aGk='')]))])"
  by code_simp

section \<open>The reshaping done by list_emails\<close>













section \<open>The reshaping done by format_message\<close>

lemma find_snoc:
  "find P (xs @ [y]) = (case find P xs of Some x \<Rightarrow> Some x | None \<Rightarrow> if P y then Some y else None)"
  by (induction xs) simp_all

lemma wf_headerD:
  assumes "wf_header h"
  shows "\<exists>kvs n v. h = JObj kvs \<and> map_of kvs ''name'' = Some (JStr n)
                    \<and> map_of kvs ''value'' = Some v"
proof (cases h)
  case (JObj kvs)
  show ?thesis
  proof (cases "map_of kvs ''name''")
    case None
    with JObj assms show ?thesis by (simp add: wf_header_def field_def)
  next
    case (Some x)
    with JObj assms obtain n where "x = JStr n"
      by (cases x) (simp_all add: wf_header_def field_def)
    with Some JObj assms show ?thesis
      by (auto simp: wf_header_def field_def)
  qed
qed (use assms in \<open>simp_all add: wf_header_def field_def\<close>)

lemma collect_headers_wf:
  "list_all wf_header hs \<Longrightarrow>
     \<exists>d. collect_headers hs acc = Inr d
        \<and> (\<forall>k. map_of d k =
                 (case find (named k) (rev hs) of
                    Some h \<Rightarrow> field h ''value''
                  | None \<Rightarrow> map_of acc k))"
proof (induction hs arbitrary: acc)
  case Nil
  then show ?case by simp
next
  case (Cons h rest)
  from Cons.prems have wf: "wf_header h" and rest: "list_all wf_header rest"
    by simp_all
  from wf_headerD [OF wf] obtain kvs n v where h: "h = JObj kvs"
    and n: "map_of kvs ''name'' = Some (JStr n)" and v: "map_of kvs ''value'' = Some v"
    by blast
  from Cons.IH [OF rest, of "AList.update (map lower_char n) v acc"] obtain d
    where run: "collect_headers rest (AList.update (map lower_char n) v acc) = Inr d"
      and look: "\<forall>k. map_of d k =
                 (case find (named k) (rev rest) of
                    Some h \<Rightarrow> field h ''value''
                  | None \<Rightarrow> map_of (AList.update (map lower_char n) v acc) k)"
    by blast
  from h n v run have "collect_headers (h # rest) acc = Inr d"
    by (simp add: subscript_def bind_exn_def str_lower_def)
  moreover have "map_of d k =
                 (case find (named k) (rev (h # rest)) of
                    Some h \<Rightarrow> field h ''value''
                  | None \<Rightarrow> map_of acc k)" for k
    using look [rule_format, of k] h n v
    by (auto simp: find_snoc named_def field_def update_conv' split: option.splits)
  ultimately show ?case by blast
qed

lemma header_or_ci:
  assumes "list_all wf_header hs"
  shows "\<exists>d. collect_headers hs [] = Inr d \<and> (\<forall>k dflt. header_or d k dflt = header_ci hs k dflt)"
proof -
  from collect_headers_wf [OF assms, of "[]"] obtain d
    where run: "collect_headers hs [] = Inr d"
      and look: "\<forall>k. map_of d k =
                 (case find (named k) (rev hs) of Some h \<Rightarrow> field h ''value''
                  | None \<Rightarrow> map_of [] k)"
    by blast
  have "header_or d k dflt = header_ci hs k dflt" for k dflt
    using look [rule_format, of k]
    by (simp add: header_or_def header_ci_def field_or_def split: option.splits)
  with run show ?thesis by blast
qed

text \<open>Selecting and decoding \<^verbatim>\<open>x['body']['data']\<close> under the handler of the \<^verbatim>\<open>try\<close> block.\<close>

lemma select_data:
  "(case bind_exn (subscript x ''body'') (\<lambda>b. bind_exn (subscript b ''data'') (decode_data w)) of
      Inl e \<Rightarrow> ''[Could not decode message body]''
    | Inr s \<Rightarrow> s) = decoded w (body_data x)"
  by (auto simp: bind_exn_def subscript_def body_data_def field_def decoded_def
      split: json.splits option.splits sum.splits)

lemma scan_parts_wf:
  "list_all wf_part ps \<Longrightarrow>
     scan_parts w ps =
       (case find is_plain ps of
          Some part \<Rightarrow>
            bind_exn (subscript part ''body'') (\<lambda>b. bind_exn (subscript b ''data'') (decode_data w))
        | None \<Rightarrow> Inr [])"
proof (induction ps)
  case Nil
  then show ?case by simp
next
  case (Cons part rest)
  from Cons.prems obtain kvs mt where "part = JObj kvs" and "map_of kvs ''mimeType'' = Some mt"
    by (auto simp: wf_part_def field_def split: json.splits)
  with Cons show ?case
    by (simp add: subscript_def is_plain_def field_def)
qed

lemma extract_body_wf:
  assumes "map_of kvs ''payload'' = Some p \<and> wf_payload p \<or> map_of kvs ''payload'' = None \<and> p = JObj []"
  shows "extract_body w (JObj kvs) = amended_body w p"
  using assms
proof
  assume "map_of kvs ''payload'' = None \<and> p = JObj []"
  then show ?thesis
    by (simp add: extract_body_def body_steps_def payload_of_def dict_get_def bind_exn_def
        py_in_def amended_body_def field_def body_data_def)
next
  assume a: "map_of kvs ''payload'' = Some p \<and> wf_payload p"
  then obtain pk where p: "p = JObj pk"
    by (auto simp: wf_payload_def split: json.splits)
  show ?thesis
  proof (cases "map_of pk ''parts''")
    case None
    with a p have "map_of pk ''body'' = None \<or> (\<exists>b. map_of pk ''body'' = Some (JObj b))"
      by (auto simp: wf_payload_def split: option.splits json.splits)
    with None a p show ?thesis
      by (auto simp: extract_body_def body_steps_def payload_of_def dict_get_def bind_exn_def
          py_in_def amended_body_def field_def body_data_def subscript_def decoded_def
          split: option.splits sum.splits)
  next
    case (Some parts)
    with a p obtain ps where parts: "parts = JList ps" and wf: "list_all wf_part ps"
      by (auto simp: wf_payload_def split: option.splits json.splits)
    have "extract_body w (JObj kvs) =
            (case scan_parts w ps of Inl e \<Rightarrow> ''[Could not decode message body]'' | Inr s \<Rightarrow> s)"
      using Some a p parts
      by (simp add: extract_body_def body_steps_def payload_of_def dict_get_def bind_exn_def
          py_in_def subscript_def py_iter_def)
    also have "\<dots> = amended_body w p"
      using Some p parts select_data [of _ w]
      by (simp add: scan_parts_wf [OF wf] amended_body_def field_def items_of_def
          split: option.splits)
    finally show ?thesis .
  qed
qed

lemma format_message_wf:
  assumes "wf_message message"
  shows "format_message w message = Inr (formatted w amended_body message)"
proof -
  from assms obtain kvs where m: "message = JObj kvs"
    by (cases message) (simp_all add: wf_message_def)
  define p where "p = field_or message ''payload'' (JObj [])"
  have pay: "map_of kvs ''payload'' = Some p \<and> wf_payload p
             \<or> map_of kvs ''payload'' = None \<and> p = JObj []"
    using assms m by (auto simp: p_def wf_message_def field_or_def field_def split: option.splits)
  then obtain pk where p: "p = JObj pk"
    by (auto simp: wf_payload_def split: json.splits)
  have payload: "payload_of message = Inr p"
    using m by (simp add: payload_of_def dict_get_def p_def field_or_def field_def)
  define hs where "hs = items_of (field p ''headers'')"
  have wf_hs: "list_all wf_header hs"
    using pay p
    by (auto simp: hs_def items_of_def field_def wf_payload_def split: option.splits json.splits)
  have iter: "bind_exn (dict_get p ''headers'' (JList [])) py_iter = Inr hs"
    using pay p
    by (auto simp: hs_def items_of_def field_def wf_payload_def dict_get_def bind_exn_def
        py_iter_def split: option.splits json.splits)
  from header_or_ci [OF wf_hs] obtain d
    where run: "collect_headers hs [] = Inr d"
      and look: "\<forall>k dflt. header_or d k dflt = header_ci hs k dflt"
    by blast
  have body: "extract_body w message = amended_body w p"
    using extract_body_wf [OF pay] m by simp
  from iter obtain hl where hl: "dict_get p ''headers'' (JList []) = Inr hl"
    and items: "py_iter hl = Inr hs"
    by (auto simp: bind_exn_def split: sum.splits)
  have get: "dict_get message k dflt = Inr (field_or message k dflt)" for k dflt
    using m by (simp add: dict_get_def field_or_def field_def)
  have "format_message w message =
      Inr (JObj
         [(''id'', field_or message ''id'' (JStr [])),
          (''thread_id'', field_or message ''threadId'' (JStr [])),
          (''from'', header_or d ''from'' ''Unknown''),
          (''to'', header_or d ''to'' ''Unknown''),
          (''subject'', header_or d ''subject'' ''(No Subject)''),
          (''date'', header_or d ''date'' ''Unknown''),
          (''snippet'', field_or message ''snippet'' (JStr [])),
          (''body'', JStr (amended_body w p))])"
    by (simp add: format_message_def payload hl items run body bind_exn_def get)
  then show ?thesis
    by (simp add: formatted_def look p_def [symmetric] hs_def [symmetric] Let_def)
qed

text \<open>
  Claim C4, as amended.  For every message object of the Gmail API, \<^verbatim>\<open>format_message\<close>
  returns a dictionary with exactly the keys \<^verbatim>\<open>id\<close>, \<^verbatim>\<open>thread_id\<close>, \<^verbatim>\<open>from\<close>, \<^verbatim>\<open>to\<close>,
  \<^verbatim>\<open>subject\<close>, \<^verbatim>\<open>date\<close>, \<^verbatim>\<open>snippet\<close> and \<^verbatim>\<open>body\<close>.  Header names are matched without
  regard to case, the last header of a name counting; a missing From, To or Date gives
  \<^verbatim>\<open>Unknown\<close>, a missing Subject \<^verbatim>\<open>(No Subject)\<close>.  When the payload has a \<^verbatim>\<open>parts\<close> key, the
  body is the decoded data of the first part whose type is \<^verbatim>\<open>text/plain\<close>, and the empty
  string when no part has that type: the top-level body is not consulted.  When the payload
  has no \<^verbatim>\<open>parts\<close> key, the body is the decoded top-level body data, and the empty string
  when there is none.  When the data selected is missing or decoding it raises, the body is
  \<^verbatim>\<open>[Could not decode message body]\<close>.
\<close>

theorem format_message_reshapes:
  "wf_message message \<longrightarrow>
     format_message w message =
       Inr (JObj
         [(''id'', field_or message ''id'' (JStr [])),
          (''thread_id'', field_or message ''threadId'' (JStr [])),
          (''from'',
           header_ci (items_of (field (field_or message ''payload'' (JObj [])) ''headers''))
             ''from'' ''Unknown''),
          (''to'',
           header_ci (items_of (field (field_or message ''payload'' (JObj [])) ''headers''))
             ''to'' ''Unknown''),
          (''subject'',
           header_ci (items_of (field (field_or message ''payload'' (JObj [])) ''headers''))
             ''subject'' ''(No Subject)''),
          (''date'',
           header_ci (items_of (field (field_or message ''payload'' (JObj [])) ''headers''))
             ''date'' ''Unknown''),
          (''snippet'', field_or message ''snippet'' (JStr [])),
          (''body'', JStr (amended_body w (field_or message ''payload'' (JObj []))))])"
  by (simp add: format_message_wf formatted_def Let_def)

lemma msg1_wf: "wf_message msg1"
  by (simp add: msg1_def wf_message_def wf_payload_def wf_header_def wf_part_def field_def)

lemma msg1_formatted:
  "JObj
     [(''id'', field_or msg1 ''id'' (JStr [])),
      (''thread_id'', field_or msg1 ''threadId'' (JStr [])),
      (''from'',
       header_ci (items_of (field (field_or msg1 ''payload'' (JObj [])) ''headers''))
         ''from'' ''Unknown''),
      (''to'',
       header_ci (items_of (field (field_or msg1 ''payload'' (JObj [])) ''headers''))
         ''to'' ''Unknown''),
      (''subject'',
       header_ci (items_of (field (field_or msg1 ''payload'' (JObj [])) ''headers''))
         ''subject'' ''(No Subject)''),
      (''date'',
       header_ci (items_of (field (field_or msg1 ''payload'' (JObj [])) ''headers''))
         ''date'' ''Unknown''),
      (''snippet'', field_or msg1 ''snippet'' (JStr [])),
      (''body'', JStr (amended_body world_ok (field_or msg1 ''payload'' (JObj []))))]
   = email1"
  by code_simp

theorem format_message_reshapes_witness:
  "wf_message msg1 \<and> format_message world_ok msg1 = Inr email1"
  using format_message_reshapes [of msg1 world_ok] msg1_wf msg1_formatted
  by simp

text \<open>
  The claim as stated fails on a payload that has both a part list without plain text and
  top-level body data: the claim gives the decoded top-level data, \<^verbatim>\<open>hi\<close>, the code the
  empty string.
\<close>

theorem format_message_body_counterexample:
  "wf_message msg3
   \<and> claimed_body world_ok (field_or msg3 ''payload'' (JObj [])) = ''hi''
   \<and> format_message world_ok msg3 =
       Inr (JObj
         [(''id'', JStr ''m3''), (''thread_id'', JStr []), (''from'', JStr ''Unknown''),
          (''to'', JStr ''Unknown''), (''subject'', JStr ''(No Subject)''),
          (''date'', JStr ''Unknown''), (''snippet'', JStr []), (''body'', JStr [])])"
  by code_simp

section \<open>The package initialiser\<close>

lemma import_fails_first:
  "ms ''calendar_utils'' = Inl e \<Longrightarrow> import_package ms = Inl e"
  by (simp add: import_package_def init_imports_def)

lemma import_binds_all:
  assumes "importable ms"
  shows "\<exists>ns. import_package ms = Inr ns \<and> list_all (bound_as_tool ns) dunder_all"
proof -
  from assms obtain d1 d2 d3 d4 d5 d6 d7 d8 d9 d10 where
    "ms ''calendar_utils'' = Inr d1" "''get_current_time'' \<in> set d1"
    "ms ''create_event'' = Inr d2" "''create_event'' \<in> set d2"
    "ms ''delete_event'' = Inr d3" "''delete_event'' \<in> set d3"
    "ms ''edit_event'' = Inr d4" "''edit_event'' \<in> set d4"
    "ms ''list_events'' = Inr d5" "''list_events'' \<in> set d5"
    "ms ''delete_email'' = Inr d6" "''delete_email'' \<in> set d6"
    "ms ''list_emails'' = Inr d7" "''list_emails'' \<in> set d7"
    "ms ''read_email'' = Inr d8" "''read_email'' \<in> set d8"
    "ms ''send_email'' = Inr d9" "''send_email'' \<in> set d9"
    "ms ''github_tools'' = Inr d10" "''list_repositories'' \<in> set d10"
    "''create_repository'' \<in> set d10" "''scan_repository'' \<in> set d10"
    "''push_to_repository'' \<in> set d10"
    by (auto simp: importable_def init_imports_def split: sum.splits)
  then show ?thesis
    by (simp add: import_package_def init_imports_def bound_as_tool_def dunder_all_def)
qed

text \<open>
  Claim C3, as amended.  \<^verbatim>\<open>__all__\<close> lists the eight advertised email and GitHub tool
  functions together with five calendar functions.  Importing the package binds every name
  of \<^verbatim>\<open>__all__\<close> to the function of that name, provided each of the ten submodules that
  the initialiser imports from can be imported and defines the names imported from it; when
  \<^verbatim>\<open>calendar_utils\<close>, the first of them, cannot be imported, importing the package fails
  with its exception and binds nothing.
\<close>

theorem package_exports:
  "list_all (\<lambda>n. n \<in> set dunder_all) advertised
   \<and> filter (\<lambda>n. n \<notin> set advertised) dunder_all =
       [''create_event'', ''delete_event'', ''edit_event'', ''list_events'', ''get_current_time'']
   \<and> (importable ms \<longrightarrow>
        (\<exists>ns. import_package ms = Inr ns \<and> list_all (bound_as_tool ns) dunder_all))
   \<and> (ms ''calendar_utils'' = Inl e \<longrightarrow> import_package ms = Inl e)"
proof (intro conjI impI)
  show "list_all (\<lambda>n. n \<in> set dunder_all) advertised"
    by (simp add: dunder_all_def advertised_def)
  show "filter (\<lambda>n. n \<notin> set advertised) dunder_all =
       [''create_event'', ''delete_event'', ''edit_event'', ''list_events'', ''get_current_time'']"
    by (simp add: dunder_all_def advertised_def)
next
  assume "importable ms"
  then show "\<exists>ns. import_package ms = Inr ns \<and> list_all (bound_as_tool ns) dunder_all"
    by (rule import_binds_all)
next
  assume "ms ''calendar_utils'' = Inl e"
  then show "import_package ms = Inl e"
    by (rule import_fails_first)
qed

lemma with_calendar_importable: "importable with_calendar"
  by (simp add: importable_def init_imports_def with_calendar_def source_tree_def)

lemma source_tree_calendar:
  "source_tree ''calendar_utils'' = Inl (module_not_found ''calendar_utils'')"
  by (simp add: source_tree_def)

theorem package_exports_witness:
  "importable with_calendar
   \<and> (\<exists>ns. import_package with_calendar = Inr ns \<and> list_all (bound_as_tool ns) dunder_all)
   \<and> source_tree ''calendar_utils'' = Inl (module_not_found ''calendar_utils'')
   \<and> import_package source_tree = Inl (module_not_found ''calendar_utils'')"
  using package_exports [of with_calendar "module_not_found ''calendar_utils''"]
    package_exports [of source_tree "module_not_found ''calendar_utils''"]
    with_calendar_importable source_tree_calendar
  by simp

text \<open>
  The claim as stated fails twice: \<^verbatim>\<open>__all__\<close> holds names beyond the advertised ones, and
  in the source tree, which has no calendar modules, importing the package raises
  \<^verbatim>\<open>ModuleNotFoundError\<close> at the first statement of the initialiser.
\<close>

theorem package_exports_counterexample:
  "''create_event'' \<in> set dunder_all
   \<and> ''create_event'' \<notin> set advertised
   \<and> import_package source_tree = Inl (module_not_found ''calendar_utils'')"
  by (simp add: dunder_all_def advertised_def import_package_def init_imports_def
      source_tree_def)

end
